theory Spec2Isabelle
  imports Complex_Main
begin

section \<open>Strings and regular expressions of the JavaScript runtime\<close>

text \<open>
  A JavaScript string is a sequence of UTF-16 code units. A code unit is modelled as a
  natural number (the real ones are below 65536), a string as a list of them; \<open>U\<close>
  writes a string literal of the source.
\<close>

type_synonym cu = nat
type_synonym ustring = "cu list"

definition U :: "string \<Rightarrow> ustring" where
  "U s = map of_char s"

definition is_digit :: "cu \<Rightarrow> bool" where
  "is_digit c = (48 \<le> c \<and> c \<le> 57)"

definition is_upper :: "cu \<Rightarrow> bool" where
  "is_upper c = (65 \<le> c \<and> c \<le> 90)"

definition is_lower :: "cu \<Rightarrow> bool" where
  "is_lower c = (97 \<le> c \<and> c \<le> 122)"

text \<open>\<open>\w\<close>: the ASCII letters, the digits and the underscore.\<close>

definition is_word :: "cu \<Rightarrow> bool" where
  "is_word c = (is_digit c \<or> is_upper c \<or> is_lower c \<or> c = 95)"

text \<open>
  \<open>\s\<close>, and what \<open>String.prototype.trim\<close> strips: the white space and line
  terminator code units of ECMAScript (tab, LF, VT, FF, CR, space, U+00A0, U+1680,
  U+2000 to U+200A, U+2028, U+2029, U+202F, U+205F, U+3000, U+FEFF).
\<close>

definition is_space :: "cu \<Rightarrow> bool" where
  "is_space c = ((9 \<le> c \<and> c \<le> 13) \<or> c = 32 \<or> c = 160 \<or> c = 5760 \<or>
     (8192 \<le> c \<and> c \<le> 8202) \<or> c = 8232 \<or> c = 8233 \<or> c = 8239 \<or> c = 8287 \<or>
     c = 12288 \<or> c = 65279)"

text \<open>\<open>.\<close> matches everything but the line terminators LF, CR, U+2028 and U+2029.\<close>

definition is_line_terminator :: "cu \<Rightarrow> bool" where
  "is_line_terminator c = (c = 10 \<or> c = 13 \<or> c = 8232 \<or> c = 8233)"

text \<open>
  Canonicalisation under the \<open>i\<close> flag (no \<open>u\<close> flag): a code unit is compared by its
  upper case, and a character outside ASCII is never mapped into ASCII. Every character
  that the patterns of this program name is ASCII, so only the ASCII letters matter.
\<close>

definition to_upper :: "cu \<Rightarrow> cu" where
  "to_upper c = (if is_lower c then c - 32 else c)"

definition to_lower :: "cu \<Rightarrow> cu" where
  "to_lower c = (if is_upper c then c + 32 else c)"

definition canon :: "bool \<Rightarrow> cu \<Rightarrow> cu" where
  "canon ic c = (if ic then to_upper c else c)"

text \<open>The members of a character class \<open>[...]\<close>.\<close>

datatype citem = Chr char | Rng char char | Digit | WordC | Space | NSpace

fun item_match :: "bool \<Rightarrow> citem \<Rightarrow> cu \<Rightarrow> bool" where
  "item_match ic (Chr a) c = (canon ic (of_char a) = canon ic c)"
| "item_match ic (Rng lo hi) c =
     ((of_char lo \<le> c \<and> c \<le> of_char hi) \<or>
      (ic \<and> ((of_char lo \<le> to_upper c \<and> to_upper c \<le> of_char hi) \<or>
             (of_char lo \<le> to_lower c \<and> to_lower c \<le> of_char hi))))"
| "item_match ic Digit c = is_digit c"
| "item_match ic WordC c = is_word c"
| "item_match ic Space c = is_space c"
| "item_match ic NSpace c = (\<not> is_space c)"

text \<open>
  The regular expressions the program uses: a class \<open>[...]\<close> (negated when the flag is
  set), \<open>.\<close>, sequence, alternative \<open>|\<close>, the star (greedy or lazy) and the word
  boundary \<open>\b\<close>. Groups capture nothing that the program reads.
\<close>

datatype regex =
    Eps
  | Cls bool "citem list"
  | Dot
  | Seq regex regex
  | Alt regex regex
  | Star bool regex
  | WordB

text \<open>A literal text, a single class member, and the quantifiers in terms of the star.\<close>

primrec lit :: "string \<Rightarrow> regex" where
  "lit [] = Eps"
| "lit (c # cs) = Seq (Cls False [Chr c]) (lit cs)"

definition one :: "citem \<Rightarrow> regex" where
  "one i = Cls False [i]"

definition opt :: "regex \<Rightarrow> regex" where
  "opt r = Alt r Eps"

primrec times :: "nat \<Rightarrow> regex \<Rightarrow> regex" where
  "times 0 r = Eps"
| "times (Suc n) r = Seq r (times n r)"

primrec upto :: "nat \<Rightarrow> regex \<Rightarrow> regex" where
  "upto 0 r = Eps"
| "upto (Suc n) r = opt (Seq r (upto n r))"

text \<open>\<open>r{m,n}\<close> is \<open>rep m (Some n) r\<close>, \<open>r{m,}\<close> is \<open>rep m None r\<close>, both greedy.\<close>

definition rep :: "nat \<Rightarrow> nat option \<Rightarrow> regex \<Rightarrow> regex" where
  "rep m n r = Seq (times m r)
     (case n of None \<Rightarrow> Star True r | Some k \<Rightarrow> upto (k - m) r)"

definition plus :: "regex \<Rightarrow> regex" where
  "plus r = rep 1 None r"

fun alts :: "regex list \<Rightarrow> regex" where
  "alts [] = Cls False []"
| "alts [r] = r"
| "alts (r # rs) = Alt r (alts rs)"

text \<open>
  A position in the input: the code unit before it, if any, and the input from it on.
\<close>

type_synonym pos = "cu option \<times> ustring"

definition word_before :: "pos \<Rightarrow> bool" where
  "word_before p = (case fst p of None \<Rightarrow> False | Some c \<Rightarrow> is_word c)"

definition word_after :: "pos \<Rightarrow> bool" where
  "word_after p = (case snd p of [] \<Rightarrow> False | c # _ \<Rightarrow> is_word c)"

text \<open>
  The backtracking matcher: \<open>ms ic r p\<close> lists the positions where a match of \<open>r\<close>
  that starts at \<open>p\<close> can end, in the order in which backtracking tries them; \<open>ic\<close>
  is the \<open>i\<close> flag. An iteration of a star that consumes nothing is rejected, as the
  runtime does.
\<close>

fun ms :: "bool \<Rightarrow> regex \<Rightarrow> pos \<Rightarrow> pos list" where
  "ms ic Eps p = [p]"
| "ms ic (Cls neg items) p =
     (case snd p of [] \<Rightarrow> []
      | c # cs \<Rightarrow> if list_ex (\<lambda>i. item_match ic i c) items \<noteq> neg then [(Some c, cs)] else [])"
| "ms ic Dot p =
     (case snd p of [] \<Rightarrow> []
      | c # cs \<Rightarrow> if is_line_terminator c then [] else [(Some c, cs)])"
| "ms ic (Seq r1 r2) p = concat (map (ms ic r2) (ms ic r1 p))"
| "ms ic (Alt r1 r2) p = ms ic r1 p @ ms ic r2 p"
| "ms ic (Star greedy r) p =
     (let more = concat (map (ms ic (Star greedy r))
                   (filter (\<lambda>q. length (snd q) < length (snd p)) (ms ic r p)))
      in if greedy then more @ [p] else p # more)"
| "ms ic WordB p = (if word_before p \<noteq> word_after p then [p] else [])"

primrec seqs :: "regex list \<Rightarrow> regex" where
  "seqs [] = Eps"
| "seqs (r # rs) = Seq r (seqs rs)"

text \<open>All positions of an input, from the left.\<close>

fun starts :: "cu option \<Rightarrow> ustring \<Rightarrow> pos list" where
  "starts b [] = [(b, [])]"
| "starts b (c # cs) = (b, c # cs) # starts (Some c) cs"

text \<open>
  \<open>String.prototype.match\<close> with a pattern without the \<open>g\<close> flag, read at index 0 of
  its result: the leftmost match, as backtracking finds it first; \<open>None\<close> is \<open>null\<close>.
\<close>

fun first_match :: "bool \<Rightarrow> regex \<Rightarrow> pos list \<Rightarrow> ustring option" where
  "first_match ic r [] = None"
| "first_match ic r (p # ps) =
     (case ms ic r p of
        [] \<Rightarrow> first_match ic r ps
      | q # _ \<Rightarrow> Some (take (length (snd p) - length (snd q)) (snd p)))"

definition match0 :: "bool \<Rightarrow> regex \<Rightarrow> ustring \<Rightarrow> ustring option" where
  "match0 ic r s = first_match ic r (starts None s)"

text \<open>\<open>RegExp.prototype.test\<close> of a pattern without the \<open>g\<close> flag: whether there is a match.\<close>

definition test :: "bool \<Rightarrow> regex \<Rightarrow> ustring \<Rightarrow> bool" where
  "test ic r s = (match0 ic r s \<noteq> None)"

text \<open>
  \<open>String.prototype.replace\<close> with a pattern with the \<open>g\<close> flag and a replacement text
  without \<open>$\<close>: every match found from the left is replaced, the search going on behind
  the match (one code unit further after an empty match).
\<close>

function replace_from :: "bool \<Rightarrow> regex \<Rightarrow> ustring \<Rightarrow> pos \<Rightarrow> ustring" where
  "replace_from ic r by p =
     (case snd p of
        [] \<Rightarrow> (case ms ic r p of [] \<Rightarrow> [] | q # _ \<Rightarrow> by)
      | c # cs \<Rightarrow>
         (case ms ic r p of
            [] \<Rightarrow> c # replace_from ic r by (Some c, cs)
          | q # _ \<Rightarrow>
             if length (snd q) < length (snd p) then by @ replace_from ic r by q
             else by @ c # replace_from ic r by (Some c, cs)))"
  by pat_completeness auto
termination
  by (relation "measure (\<lambda>(ic, r, by, p). length (snd p))") auto

declare replace_from.simps [simp del]

definition replace_all :: "bool \<Rightarrow> regex \<Rightarrow> ustring \<Rightarrow> ustring \<Rightarrow> ustring" where
  "replace_all ic r by s = replace_from ic r by (None, s)"

section \<open>JavaScript values\<close>

text \<open>
  A number is kept as the exact value of its literal; a literal beyond the range of a
  double is an infinity. Objects keep their own properties in insertion order.
\<close>

datatype jsnum = Fin rat | PosInf | NegInf

datatype jsval =
    JUndefined
  | JNull
  | JBool bool
  | JNum jsnum
  | JStr ustring
  | JArr "jsval list"
  | JObj "(ustring \<times> jsval) list"

fun truthy :: "jsval \<Rightarrow> bool" where
  "truthy JUndefined = False"
| "truthy JNull = False"
| "truthy (JBool b) = b"
| "truthy (JNum n) = (n \<noteq> Fin 0)"
| "truthy (JStr s) = (s \<noteq> [])"
| "truthy (JArr _) = True"
| "truthy (JObj _) = True"

text \<open>Reading a property (\<open>undefined\<close> when there is none), and the \<open>in\<close> operator.\<close>

fun get :: "jsval \<Rightarrow> ustring \<Rightarrow> jsval" where
  "get (JObj kvs) k = (case map_of kvs k of None \<Rightarrow> JUndefined | Some v \<Rightarrow> v)"
| "get _ k = JUndefined"

definition has :: "ustring \<Rightarrow> (ustring \<times> jsval) list \<Rightarrow> bool" where
  "has k kvs = (map_of kvs k \<noteq> None)"

text \<open>Setting a property: an existing one keeps its place, a new one goes last.\<close>

fun put :: "ustring \<Rightarrow> jsval \<Rightarrow> (ustring \<times> jsval) list \<Rightarrow> (ustring \<times> jsval) list" where
  "put k v [] = [(k, v)]"
| "put k v ((k', v') # kvs) = (if k = k' then (k, v) # kvs else (k', v') # put k v kvs)"

definition strs :: "ustring list \<Rightarrow> jsval" where
  "strs xs = JArr (map JStr xs)"

definition num :: "int \<Rightarrow> jsval" where
  "num n = JNum (Fin (of_int n))"

section \<open>The pattern classifier (\<open>backend/aiService.js\<close>)\<close>

text \<open>The local variables of \<open>analyzeWithAI\<close> that make up its \<open>analysis\<close>.\<close>

record incident =
  issueType :: ustring
  rootCause :: ustring
  suggestedFix :: "ustring list"
  severity :: ustring
  category :: ustring
  confidence :: int
  relatedLogs :: "ustring list"

text \<open>Their initial values.\<close>

definition initial :: incident where
  "initial =
    \<lparr>issueType = U ''No critical issues detected'',
     rootCause = U ''No obvious error signatures were found in the provided logs. The service appears healthy based on the available information.'',
     suggestedFix =
       [U ''Continue monitoring logs for new errors or spikes in latency.'',
        U ''Set up alerts on error rate, latency and resource usage if not already in place.''],
     severity = U ''Low'',
     category = U ''informational'',
     confidence = 50,
     relatedLogs = []\<rparr>"

text \<open>
  An entry of \<open>patterns\<close>: its name, its pattern (each has the \<open>i\<close> flag and no \<open>g\<close>
  flag) and the values its \<open>update\<close> assigns.
\<close>

record pattern =
  name :: string
  match :: regex
  update :: incident

text \<open>\<^verbatim>\<open>/\s(5\d{2})\s|500 Internal Server Error|HTTP 500/i\<close>\<close>

definition http_5xx :: pattern where
  "http_5xx =
    \<lparr>name = ''http_5xx'',
     match =
       alts [seqs [one Space, lit ''5'', rep 2 (Some 2) (one Digit), one Space],
             lit ''500 Internal Server Error'',
             lit ''HTTP 500''],
     update =
       \<lparr>issueType = U ''HTTP 5xx server error'',
        rootCause = U ''The logs show HTTP 5xx responses being returned to clients, indicating a server-side failure in handling requests.'',
        suggestedFix =
          [U ''Inspect stack traces around the time of the 5xx responses to identify failing code paths.'',
           U ''Check upstream dependencies (databases, external APIs) for errors or timeouts that could cause the server to fail.'',
           U ''Add more structured logging (request id, user id, endpoint) around failing endpoints to narrow down the problem.''],
        severity = U ''High'',
        category = U ''runtime'',
        confidence = 80,
        relatedLogs = [U ''HTTP 500'',
           U ''HTTP 502'',
           U ''HTTP 503'',
           U ''Unhandled exception'']\<rparr>\<rparr>"

text \<open>\<^verbatim>\<open>/timeout|timed out|ESOCKETTIMEDOUT|ETIMEDOUT/i\<close>\<close>

definition timeout :: pattern where
  "timeout =
    \<lparr>name = ''timeout'',
     match =
       alts [lit ''timeout'', lit ''timed out'', lit ''ESOCKETTIMEDOUT'', lit ''ETIMEDOUT''],
     update =
       \<lparr>issueType = U ''Request or dependency timeout'',
        rootCause = U ''The logs contain timeout errors, suggesting that a downstream dependency or network call is not responding within the expected time.'',
        suggestedFix =
          [U ''Identify which external service or database call is timing out and measure its typical response time.'',
           U ''Increase the timeout threshold only if the dependency is known to be slow and cannot be optimized.'',
           U ''Add retries with backoff and better error handling around slow network calls.''],
        severity = U ''High'',
        category = U ''infrastructure'',
        confidence = 75,
        relatedLogs = [U ''ETIMEDOUT'',
           U ''ESOCKETTIMEDOUT'',
           U ''request timeout'']\<rparr>\<rparr>"

text \<open>\<^verbatim>\<open>/ECONNREFUSED.*(postgres|mysql|mongo|database)|database connection failed|could not connect to server/i\<close>\<close>

definition db_connection :: pattern where
  "db_connection =
    \<lparr>name = ''db_connection'',
     match =
       alts [seqs [lit ''ECONNREFUSED'', Star True Dot,
                   alts [lit ''postgres'', lit ''mysql'', lit ''mongo'', lit ''database'']],
             lit ''database connection failed'',
             lit ''could not connect to server''],
     update =
       \<lparr>issueType = U ''Database connection failure'',
        rootCause = U ''The application is unable to establish or maintain a connection to the database. This can be due to configuration errors, network issues, or the database server being down.'',
        suggestedFix =
          [U ''Verify database host, port, username, password and database name in the application configuration or environment variables.'',
           U ''Check if the database server is running and reachable from the application host (e.g., using ping or telnet).'',
           U ''Confirm that firewall rules and security groups allow traffic between the application and the database.''],
        severity = U ''Critical'',
        category = U ''database'',
        confidence = 85,
        relatedLogs = [U ''ECONNREFUSED'',
           U ''connection refused'',
           U ''could not connect to server'']\<rparr>\<rparr>"

text \<open>\<^verbatim>\<open>/(SQLSTATE|syntax error at or near|duplicate key value violates unique constraint|deadlock detected)/i\<close>\<close>

definition db_query :: pattern where
  "db_query =
    \<lparr>name = ''db_query'',
     match =
       alts [lit ''SQLSTATE'', lit ''syntax error at or near'',
             lit ''duplicate key value violates unique constraint'', lit ''deadlock detected''],
     update =
       \<lparr>issueType = U ''Database query error'',
        rootCause = U ''The database is rejecting one or more queries, indicating problems such as invalid SQL syntax, constraint violations, or deadlocks.'',
        suggestedFix =
          [U ''Inspect the failing SQL statement and verify table/column names, parameter types, and join conditions.'',
           U ''Handle unique constraint violations by checking for existing records before inserts or using upserts where appropriate.'',
           U ''If deadlocks occur, review transaction scope and lock usage to reduce contention.''],
        severity = U ''High'',
        category = U ''database'',
        confidence = 80,
        relatedLogs = [U ''SQLSTATE'',
           U ''syntax error'',
           U ''duplicate key'',
           U ''deadlock detected'']\<rparr>\<rparr>"

text \<open>\<^verbatim>\<open>/unauthorized|forbidden|401|403|invalid token|jwt/i\<close>\<close>

definition auth :: pattern where
  "auth =
    \<lparr>name = ''auth'',
     match =
       alts [lit ''unauthorized'', lit ''forbidden'', lit ''401'', lit ''403'',
             lit ''invalid token'', lit ''jwt''],
     update =
       \<lparr>issueType = U ''Authentication or authorization failure'',
        rootCause = U ''The logs show repeated authentication or authorization errors, suggesting invalid credentials, expired tokens, or misconfigured access control.'',
        suggestedFix =
          [U ''Verify token issuance (expiration time, audience, issuer) and ensure the API is validating them correctly.'',
           U ''Check role/permission mappings to make sure users have the required access for the actions they are performing.'',
           U ''Add clearer error messages and correlation ids for failed auth requests to aid debugging.''],
        severity = U ''Medium'',
        category = U ''security'',
        confidence = 70,
        relatedLogs = [U ''401 Unauthorized'',
           U ''403 Forbidden'',
           U ''invalid token'']\<rparr>\<rparr>"

text \<open>\<^verbatim>\<open>/out of memory|heap limit|JavaScript heap out of memory|ENOMEM/i\<close>\<close>

definition oom :: pattern where
  "oom =
    \<lparr>name = ''oom'',
     match =
       alts [lit ''out of memory'', lit ''heap limit'', lit ''JavaScript heap out of memory'',
             lit ''ENOMEM''],
     update =
       \<lparr>issueType = U ''Out-of-memory condition'',
        rootCause = U ''The process is running out of memory, which typically indicates a memory leak or workloads that exceed the available resources.'',
        suggestedFix =
          [U ''Capture heap snapshots and analyze object retention to identify memory leaks.'',
           U ''Review caching and in-memory data structures for unbounded growth.'',
           U ''Increase memory limits for the service only after confirming that memory usage patterns are expected.''],
        severity = U ''Critical'',
        category = U ''performance'',
        confidence = 85,
        relatedLogs = [U ''heap out of memory'',
           U ''ENOMEM'',
           U ''Out of memory'']\<rparr>\<rparr>"

text \<open>\<^verbatim>\<open>/exception|stack trace|unhandled rejection|fatal error|TypeError|ReferenceError/i\<close>\<close>

definition generic_error :: pattern where
  "generic_error =
    \<lparr>name = ''generic_error'',
     match =
       alts [lit ''exception'', lit ''stack trace'', lit ''unhandled rejection'',
             lit ''fatal error'', lit ''TypeError'', lit ''ReferenceError''],
     update =
       \<lparr>issueType = U ''Application runtime error'',
        rootCause = U ''The logs show runtime exceptions being thrown by the application, which likely stem from unhandled edge cases, null values, or incorrect assumptions in the code.'',
        suggestedFix =
          [U ''Review the stack trace to locate the exact function and line where the exception originates.'',
           U ''Add input validation and null checks around the failing code path.'',
           U ''Introduce structured error handling (try/catch, centralized error middleware) to catch and log exceptions consistently.''],
        severity = U ''High'',
        category = U ''runtime'',
        confidence = 75,
        relatedLogs = [U ''Unhandled exception'',
           U ''TypeError'',
           U ''ReferenceError'',
           U ''stack trace'']\<rparr>\<rparr>"

text \<open>\<^verbatim>\<open>/warn|deprecated|slow query|high latency/i\<close>\<close>

definition warning_only :: pattern where
  "warning_only =
    \<lparr>name = ''warning_only'',
     match =
       alts [lit ''warn'', lit ''deprecated'', lit ''slow query'', lit ''high latency''],
     update =
       \<lparr>issueType = U ''Performance or warning signals detected'',
        rootCause = U ''The logs primarily contain warnings or performance-related messages (such as slow queries or elevated latency) rather than hard failures.'',
        suggestedFix =
          [U ''Identify the endpoints or queries that show the highest latency and profile them.'',
           U ''Optimize slow database queries using indexes, query rewrites, or caching.'',
           U ''Set SLOs (service level objectives) and alerting thresholds for latency and error rate.''],
        severity = U ''Medium'',
        category = U ''performance'',
        confidence = 65,
        relatedLogs = [U ''WARN'',
           U ''slow query'',
           U ''high latency'']\<rparr>\<rparr>"

definition patterns :: "pattern list" where
  "patterns = [http_5xx, timeout, db_connection, db_query,
     auth, oom, generic_error, warning_only]"

text \<open>The values assigned when no entry matches and \<^verbatim>\<open>/error|fail(ed)?/i\<close> does.\<close>

definition error_keyword :: regex where
  "error_keyword = alts [lit ''error'', Seq (lit ''fail'') (opt (lit ''ed''))]"

definition generic_error_detected :: incident where
  "generic_error_detected =
    \<lparr>issueType = U ''Generic error detected'',
     rootCause = U ''The logs contain error keywords but do not match a more specific pattern. There is likely a failure that requires manual inspection of the stack trace and recent changes.'',
     suggestedFix =
       [U ''Inspect error messages and stack traces around the time of failure.'',
        U ''Correlate the error with recent code or configuration changes.'',
        U ''Add structured logging (request id, user id, feature flags) to improve observability.''],
     severity = U ''Medium'',
     category = U ''runtime'',
     confidence = 60,
     relatedLogs = [U ''error'',
        U ''failed'',
        U ''stack trace'']\<rparr>"

text \<open>
  What a caller can pass as \<open>logText\<close>, as far as the function tells values apart:
  \<open>undefined\<close>, \<open>null\<close>, a string, another primitive value (whether it is truthy, and the
  string its \<open>toString\<close> gives), or an object. For an object,
  \<open>(logText || '').toString()\<close> and \<open>text.toLowerCase()\<close> end in one of three ways:
  \<open>toString\<close> gives a string; one of the two calls throws (there is no such method, the
  method throws, or \<open>toString\<close> gives a value without a \<open>toLowerCase\<close> method); or
  \<open>toString\<close> gives an object with a \<open>toLowerCase\<close> method of its own that returns. In
  the last case \<open>text\<close> is that object, and every \<open>test\<close> of a pattern converts it to a
  string anew: the conversion at the \<open>k\<close>-th test gives a string or throws.
\<close>

datatype conversion = Gives ustring | Raises jsval

datatype coercion = Returns ustring | Throws jsval | Wraps "nat \<Rightarrow> conversion"

datatype js_input =
    InUndefined
  | InNull
  | InString ustring
  | InPrimitive bool ustring
  | InObject coercion

fun to_text :: "js_input \<Rightarrow> coercion" where
  "to_text InUndefined = Returns []"
| "to_text InNull = Returns []"
| "to_text (InString s) = Returns s"
| "to_text (InPrimitive t s) = Returns (if t then s else [])"
| "to_text (InObject c) = c"

definition analysis_of :: "incident \<Rightarrow> jsval" where
  "analysis_of v = JObj
     [(U ''issueType'', JStr (issueType v)),
      (U ''rootCause'', JStr (rootCause v)),
      (U ''suggestedFix'', strs (suggestedFix v)),
      (U ''severity'', JStr (severity v)),
      (U ''category'', JStr (category v)),
      (U ''confidence'', num (confidence v)),
      (U ''relatedLogs'', strs (relatedLogs v))]"

text \<open>
  The values of the local variables when the result is built: those of the first entry
  of \<open>patterns\<close> whose pattern matches, else those of the generic error, else the
  initial ones.
\<close>

definition classify :: "ustring \<Rightarrow> incident" where
  "classify text =
     (case find (\<lambda>p. test True (match p) text) patterns of
        Some matched \<Rightarrow> update matched
      | None \<Rightarrow> if test True error_keyword text then generic_error_detected else initial)"

text \<open>
  The same for a \<open>text\<close> that is an object: the entries are tested in order, each test
  on the string that the conversion at its turn gives, and a conversion that throws ends
  the search with what it throws.
\<close>

fun classify_wrapped :: "(nat \<Rightarrow> conversion) \<Rightarrow> nat \<Rightarrow> pattern list \<Rightarrow> jsval + incident" where
  "classify_wrapped conv k [] =
     (case conv k of
        Raises error \<Rightarrow> Inl error
      | Gives s \<Rightarrow> Inr (if test True error_keyword s then generic_error_detected else initial))"
| "classify_wrapped conv k (p # ps) =
     (case conv k of
        Raises error \<Rightarrow> Inl error
      | Gives s \<Rightarrow>
         if test True (match p) s then Inr (update p) else classify_wrapped conv (Suc k) ps)"

text \<open>
  \<open>analyzeWithAI\<close> of \<open>backend/aiService.js\<close>; \<open>timestamp\<close> is what
  \<open>new Date().toISOString()\<close> gives. \<open>succeeded\<close> is the object that the \<open>try\<close> block
  returns, \<open>caught\<close> the one that the \<open>catch\<close> block returns.
\<close>

definition succeeded :: "ustring \<Rightarrow> incident \<Rightarrow> jsval" where
  "succeeded timestamp v = JObj
     [(U ''success'', JBool True),
      (U ''analysis'', analysis_of v),
      (U ''metadata'', JObj
         [(U ''model'', JStr (U ''pattern-based-log-analyzer'')),
          (U ''timestamp'', JStr timestamp)])]"

definition caught :: "jsval \<Rightarrow> jsval" where
  "caught error = JObj [(U ''success'', JBool False), (U ''error'', error)]"

definition analyzeWithAI :: "ustring \<Rightarrow> js_input \<Rightarrow> jsval" where
  "analyzeWithAI timestamp logText =
     (case to_text logText of
        Throws error \<Rightarrow> caught error
      | Returns text \<Rightarrow> succeeded timestamp (classify text)
      | Wraps conv \<Rightarrow>
         (case classify_wrapped conv 0 patterns of
            Inl error \<Rightarrow> caught error
          | Inr v \<Rightarrow> succeeded timestamp v))"

section \<open>JSON texts\<close>

text \<open>
  \<open>JSON.parse\<close> of the runtime: the grammar of JSON texts, read from the left. \<open>None\<close>
  stands for the \<open>SyntaxError\<close> it throws. A property that occurs twice keeps its first
  place and its last value.
\<close>

definition is_json_ws :: "cu \<Rightarrow> bool" where
  "is_json_ws c = (c = 32 \<or> c = 9 \<or> c = 10 \<or> c = 13)"

definition ws :: "ustring \<Rightarrow> ustring" where
  "ws s = dropWhile is_json_ws s"

text \<open>The body of a string, behind its opening quote: the string and the rest of the text.\<close>

definition hex_digit :: "cu \<Rightarrow> nat option" where
  "hex_digit c =
     (if 48 \<le> c \<and> c \<le> 57 then Some (c - 48)
      else if 65 \<le> c \<and> c \<le> 70 then Some (c - 55)
      else if 97 \<le> c \<and> c \<le> 102 then Some (c - 87)
      else None)"

definition simple_escape :: "cu \<Rightarrow> cu option" where
  "simple_escape e =
     (if e = 34 \<or> e = 92 \<or> e = 47 then Some e
      else if e = 98 then Some 8
      else if e = 102 then Some 12
      else if e = 110 then Some 10
      else if e = 114 then Some 13
      else if e = 116 then Some 9
      else None)"

fun string_body :: "ustring \<Rightarrow> (ustring \<times> ustring) option" where
  "string_body [] = None"
| "string_body (c # cs) =
     (if c = 34 then Some ([], cs)
      else if c = 92 then
        (case cs of
           [] \<Rightarrow> None
         | e # r \<Rightarrow>
            if e = 117 then
              (case r of
                 h1 # h2 # h3 # h4 # r' \<Rightarrow>
                   (case (hex_digit h1, hex_digit h2, hex_digit h3, hex_digit h4) of
                      (Some a, Some b, Some x, Some y) \<Rightarrow>
                        map_option (\<lambda>(s, t). ((((a * 16 + b) * 16 + x) * 16 + y) # s, t))
                          (string_body r')
                    | _ \<Rightarrow> None)
               | _ \<Rightarrow> None)
            else
              (case simple_escape e of
                 None \<Rightarrow> None
               | Some x \<Rightarrow> map_option (\<lambda>(s, t). (x # s, t)) (string_body r)))
      else if c < 32 then None
      else map_option (\<lambda>(s, t). (c # s, t)) (string_body cs))"

text \<open>
  The double of the exact value of a number: an infinity from \<open>2^1024 - 2^970\<close> on, zero
  up to \<open>2^-1075\<close>, and else the double nearest to the value, which is written as that
  value.
\<close>

definition digits_value :: "ustring \<Rightarrow> nat" where
  "digits_value ds = foldl (\<lambda>n d. 10 * n + (d - 48)) 0 ds"

definition to_double :: "rat \<Rightarrow> jsnum" where
  "to_double v =
     (if 2 ^ 1024 - 2 ^ 970 \<le> v then PosInf
      else if v \<le> - (2 ^ 1024 - 2 ^ 970) then NegInf
      else if \<bar>v\<bar> \<le> 1 / 2 ^ 1075 then Fin 0
      else Fin v)"

definition number :: "ustring \<Rightarrow> (jsnum \<times> ustring) option" where
  "number s =
     (let neg = (case s of [] \<Rightarrow> False | c # _ \<Rightarrow> c = 45);
          s1 = (if neg then tl s else s);
          ip = (case s1 of [] \<Rightarrow> [] | c # _ \<Rightarrow> if c = 48 then [c] else takeWhile is_digit s1);
          s2 = drop (length ip) s1;
          fp = (case s2 of [] \<Rightarrow> [] | c # r \<Rightarrow> if c = 46 then takeWhile is_digit r else []);
          dot = (case s2 of [] \<Rightarrow> False | c # _ \<Rightarrow> c = 46);
          s3 = (if dot then drop (Suc (length fp)) s2 else s2);
          ex = (case s3 of [] \<Rightarrow> False | c # _ \<Rightarrow> c = 101 \<or> c = 69);
          s4 = (if ex then tl s3 else s3);
          eneg = (case s4 of [] \<Rightarrow> False | c # _ \<Rightarrow> c = 45);
          s5 = (if ex \<and> (case s4 of [] \<Rightarrow> False | c # _ \<Rightarrow> c = 45 \<or> c = 43) then tl s4 else s4);
          ep = (if ex then takeWhile is_digit s5 else []);
          s6 = drop (length ep) s5;
          m = rat_of_nat (digits_value (ip @ fp)) / 10 ^ length fp;
          v = (if eneg then m / 10 ^ digits_value ep else m * 10 ^ digits_value ep)
      in if ip = [] \<or> (dot \<and> fp = []) \<or> (ex \<and> ep = []) then None
         else Some (to_double (if neg then - v else v), s6))"

definition keyword :: "string \<Rightarrow> jsval \<Rightarrow> ustring \<Rightarrow> (jsval \<times> ustring) option" where
  "keyword k v s = (if take (length k) s = U k then Some (v, drop (length k) s) else None)"

text \<open>
  A value, the members of an object behind its opening brace, and the elements of an array
  behind its opening bracket, each with the rest of the text. The recursion goes on with
  a rest of the text, which is shorter than the text; the comparisons of lengths say so
  where the recursion needs it.
\<close>

lemma ws_shorter: "ws s = c # cs \<Longrightarrow> length cs < length s"
proof -
  assume a: "ws s = c # cs"
  have "length (ws s) \<le> length s"
    unfolding ws_def by (rule length_dropWhile_le)
  with a show ?thesis by simp
qed

function (sequential) json_value :: "ustring \<Rightarrow> (jsval \<times> ustring) option"
  and members ::
    "(ustring \<times> jsval) list \<Rightarrow> ustring \<Rightarrow> ((ustring \<times> jsval) list \<times> ustring) option"
  and elements :: "jsval list \<Rightarrow> ustring \<Rightarrow> (jsval list \<times> ustring) option"
where
  "json_value s =
     (case ws s of
        [] \<Rightarrow> None
      | c # cs \<Rightarrow>
         if c = 123 then
           (case ws cs of
              [] \<Rightarrow> None
            | d # r \<Rightarrow>
               if d = 125 then Some (JObj [], r)
               else map_option (\<lambda>(kvs, r). (JObj kvs, r)) (members [] cs))
         else if c = 91 then
           (case ws cs of
              [] \<Rightarrow> None
            | d # r \<Rightarrow>
               if d = 93 then Some (JArr [], r)
               else map_option (\<lambda>(xs, r). (JArr xs, r)) (elements [] cs))
         else if c = 34 then map_option (\<lambda>(x, r). (JStr x, r)) (string_body cs)
         else if c = 116 then keyword ''true'' (JBool True) (c # cs)
         else if c = 102 then keyword ''false'' (JBool False) (c # cs)
         else if c = 110 then keyword ''null'' JNull (c # cs)
         else map_option (\<lambda>(x, r). (JNum x, r)) (number (c # cs)))"
| "members acc s =
     (case ws s of
        [] \<Rightarrow> None
      | q # cs \<Rightarrow>
         if q \<noteq> 34 then None
         else
           (case string_body cs of
              None \<Rightarrow> None
            | Some (k, r1) \<Rightarrow>
               (case ws r1 of
                  [] \<Rightarrow> None
                | colon # r2 \<Rightarrow>
                   if colon \<noteq> 58 \<or> \<not> length r2 < length s then None
                   else
                     (case json_value r2 of
                        None \<Rightarrow> None
                      | Some (v, r3) \<Rightarrow>
                         (case ws r3 of
                            [] \<Rightarrow> None
                          | d # r4 \<Rightarrow>
                             if d = 125 then Some (put k v acc, r4)
                             else if d = 44 \<and> length r4 < length s then members (put k v acc) r4
                             else None)))))"
| "elements acc s =
     (case json_value s of
        None \<Rightarrow> None
      | Some (v, r1) \<Rightarrow>
         (case ws r1 of
            [] \<Rightarrow> None
          | d # r2 \<Rightarrow>
             if d = 93 then Some (acc @ [v], r2)
             else if d = 44 \<and> length r2 < length s then elements (acc @ [v]) r2
             else None))"
  by pat_completeness auto
termination
  apply (relation "measure (\<lambda>x. case x of
       Inl s \<Rightarrow> 2 * length s
     | Inr (Inl (acc, s)) \<Rightarrow> 2 * length s + 1
     | Inr (Inr (acc, s)) \<Rightarrow> 2 * length s + 1)")
  apply (auto dest: ws_shorter)
  done

declare json_value.simps [simp del] members.simps [simp del] elements.simps [simp del]

definition JSON_parse :: "ustring \<Rightarrow> jsval option" where
  "JSON_parse s = (case json_value s of
      None \<Rightarrow> None
    | Some (v, r) \<Rightarrow> if ws r = [] then Some v else None)"


text \<open>
  What \<open>JSON.parse(JSON.stringify(v))\<close> gives for a value made of the above: a property
  whose value is \<open>undefined\<close> is left out, \<open>undefined\<close> in an array and a number that is
  not finite become \<open>null\<close>, everything else is read back as it was written.
\<close>

fun stored :: "jsval \<Rightarrow> jsval" where
  "stored (JNum n) = (case n of Fin v \<Rightarrow> JNum (Fin v) | PosInf \<Rightarrow> JNull | NegInf \<Rightarrow> JNull)"
| "stored (JArr xs) = JArr (map (\<lambda>x. if x = JUndefined then JNull else stored x) xs)"
| "stored (JObj kvs) =
     JObj (map (\<lambda>kv. (fst kv, stored (snd kv))) (filter (\<lambda>kv. snd kv \<noteq> JUndefined) kvs))"
| "stored v = v"

text \<open>The own enumerable properties that \<open>{...v}\<close> copies.\<close>

fun show_nat :: "nat \<Rightarrow> ustring" where
  "show_nat n = (if n < 10 then [48 + n] else show_nat (n div 10) @ [48 + n mod 10])"

fun spread :: "jsval \<Rightarrow> (ustring \<times> jsval) list" where
  "spread (JObj kvs) = kvs"
| "spread (JArr xs) = zip (map show_nat [0..<length xs]) xs"
| "spread (JStr s) = zip (map show_nat [0..<length s]) (map (\<lambda>c. JStr [c]) s)"
| "spread _ = []"

section \<open>Configuration and redaction of the AI service\<close>

definition MAX_LOG_SIZE :: nat where
  "MAX_LOG_SIZE = 5 * 1024 * 1024"

definition CACHE_TTL :: int where
  "CACHE_TTL = 24 * 60 * 60 * 1000"

text \<open>\<^verbatim>\<open>IP: /(\d{1,3}\.){3}\d{1,3}/g\<close>\<close>

definition IP :: regex where
  "IP = seqs [rep 3 (Some 3) (seqs [rep 1 (Some 3) (one Digit), lit ''.'']),
              rep 1 (Some 3) (one Digit)]"

text \<open>\<^verbatim>\<open>EMAIL: /[a-zA-Z0-9._%+-]+@[a-zA-Z0-9.-]+\.[a-zA-Z]{2,}/g\<close>\<close>

definition EMAIL :: regex where
  "EMAIL = seqs
     [plus (Cls False [Rng CHR ''a'' CHR ''z'', Rng CHR ''A'' CHR ''Z'', Rng CHR ''0'' CHR ''9'',
                       Chr CHR ''.'', Chr CHR ''_'', Chr CHR ''%'', Chr CHR ''+'', Chr CHR ''-'']),
      lit ''@'',
      plus (Cls False [Rng CHR ''a'' CHR ''z'', Rng CHR ''A'' CHR ''Z'', Rng CHR ''0'' CHR ''9'',
                       Chr CHR ''.'', Chr CHR ''-'']),
      lit ''.'',
      rep 2 None (Cls False [Rng CHR ''a'' CHR ''z'', Rng CHR ''A'' CHR ''Z''])]"

text \<open>\<^verbatim>\<open>API_KEY: /(?:key|api[_-]?key|token|secret)[=:]["']?([a-zA-Z0-9_\-]{20,})["']?/gi\<close>\<close>

definition API_KEY :: regex where
  "API_KEY = seqs
     [alts [lit ''key'',
            seqs [lit ''api'', opt (Cls False [Chr CHR ''_'', Chr CHR ''-'']), lit ''key''],
            lit ''token'',
            lit ''secret''],
      Cls False [Chr CHR ''='', Chr CHR '':''],
      opt (Cls False [Chr CHR 0x22, Chr CHR 0x27]),
      rep 20 None (Cls False [Rng CHR ''a'' CHR ''z'', Rng CHR ''A'' CHR ''Z'',
                              Rng CHR ''0'' CHR ''9'', Chr CHR ''_'', Chr CHR ''-'']),
      opt (Cls False [Chr CHR 0x22, Chr CHR 0x27])]"

text \<open>\<^verbatim>\<open>URL: /(https?:\/\/[^\s]+)/g\<close>\<close>

definition URL :: regex where
  "URL = seqs [lit ''http'', opt (lit ''s''), lit ''://'', plus (Cls True [Space])]"

text \<open>\<^verbatim>\<open>FILE_PATH: /(\/[\w\-\.]+)+/g\<close>\<close>

definition FILE_PATH :: regex where
  "FILE_PATH = plus (seqs [lit ''/'', plus (Cls False [WordC, Chr CHR ''-'', Chr CHR ''.''])])"

text \<open>\<^verbatim>\<open>TIMESTAMP: /\d{4}-\d{2}-\d{2}[T ]\d{2}:\d{2}:\d{2}(\.\d+)?(Z|[+-]\d{2}:?\d{2})?/g\<close>\<close>

definition TIMESTAMP :: regex where
  "TIMESTAMP = seqs
     [rep 4 (Some 4) (one Digit), lit ''-'', rep 2 (Some 2) (one Digit), lit ''-'',
      rep 2 (Some 2) (one Digit),
      Cls False [Chr CHR ''T'', Chr CHR '' ''],
      rep 2 (Some 2) (one Digit), lit '':'', rep 2 (Some 2) (one Digit), lit '':'',
      rep 2 (Some 2) (one Digit),
      opt (seqs [lit ''.'', plus (one Digit)]),
      opt (alts [lit ''Z'',
                 seqs [Cls False [Chr CHR ''+'', Chr CHR ''-''], rep 2 (Some 2) (one Digit),
                       opt (lit '':''), rep 2 (Some 2) (one Digit)]])]"

text \<open>\<^verbatim>\<open>CREDIT_CARD: /\b(?:\d[ -]*?){13,16}\b/g\<close>\<close>

definition CREDIT_CARD :: regex where
  "CREDIT_CARD = seqs
     [WordB,
      rep 13 (Some 16) (seqs [one Digit, Star False (Cls False [Chr CHR '' '', Chr CHR ''-''])]),
      WordB]"

text \<open>\<^verbatim>\<open>SSN: /\b\d{3}[-.]?\d{2}[-.]?\d{4}\b/g\<close>\<close>

definition SSN :: regex where
  "SSN = seqs
     [WordB, rep 3 (Some 3) (one Digit), opt (Cls False [Chr CHR ''-'', Chr CHR ''.'']),
      rep 2 (Some 2) (one Digit), opt (Cls False [Chr CHR ''-'', Chr CHR ''.'']),
      rep 4 (Some 4) (one Digit), WordB]"

text \<open>\<open>CONFIG.REDACT_PATTERNS\<close>, in the order of its properties; the flag is the \<open>i\<close> flag.\<close>

definition REDACT_PATTERNS :: "(string \<times> bool \<times> regex) list" where
  "REDACT_PATTERNS =
     [(''IP'', False, IP), (''EMAIL'', False, EMAIL), (''API_KEY'', True, API_KEY),
      (''URL'', False, URL), (''FILE_PATH'', False, FILE_PATH),
      (''TIMESTAMP'', False, TIMESTAMP), (''CREDIT_CARD'', False, CREDIT_CARD),
      (''SSN'', False, SSN)]"

definition redactSensitiveInfo :: "ustring \<Rightarrow> ustring" where
  "redactSensitiveInfo content =
     foldl (\<lambda>redacted (k, ic, pattern). replace_all ic pattern (U ''[REDACTED]'') redacted)
       content REDACT_PATTERNS"

section \<open>The second redactor (\<open>redactSensitive\<close>)\<close>

text \<open>\<^verbatim>\<open>/\b\d{1,3}(\.\d{1,3}){3}\b/g\<close>\<close>

definition ip_pattern :: regex where
  "ip_pattern = seqs
     [WordB, rep 1 (Some 3) (one Digit),
      rep 3 (Some 3) (seqs [lit ''.'', rep 1 (Some 3) (one Digit)]), WordB]"

text \<open>\<^verbatim>\<open>/([A-Za-z]:)?(\/[A-Za-z0-9._-]+)+/g\<close>\<close>

definition path_pattern :: regex where
  "path_pattern = seqs
     [opt (seqs [Cls False [Rng CHR ''A'' CHR ''Z'', Rng CHR ''a'' CHR ''z''], lit '':'']),
      plus (seqs [lit ''/'',
                  plus (Cls False [Rng CHR ''A'' CHR ''Z'', Rng CHR ''a'' CHR ''z'',
                                   Rng CHR ''0'' CHR ''9'', Chr CHR ''.'', Chr CHR ''_'',
                                   Chr CHR ''-''])])]"

text \<open>\<^verbatim>\<open>/(key|token|api)[=: ]+[A-Za-z0-9-_]{10,}/gi\<close>\<close>

definition key_pattern :: regex where
  "key_pattern = seqs
     [alts [lit ''key'', lit ''token'', lit ''api''],
      plus (Cls False [Chr CHR ''='', Chr CHR '':'', Chr CHR '' '']),
      rep 10 None (Cls False [Rng CHR ''A'' CHR ''Z'', Rng CHR ''a'' CHR ''z'',
                              Rng CHR ''0'' CHR ''9'', Chr CHR ''-'', Chr CHR ''_''])]"

text \<open>\<^verbatim>\<open>/[A-Za-z0-9._%+-]+@[A-Za-z0-9.-]+\.[A-Z]{2,}/gi\<close>\<close>

definition email_pattern :: regex where
  "email_pattern = seqs
     [plus (Cls False [Rng CHR ''A'' CHR ''Z'', Rng CHR ''a'' CHR ''z'', Rng CHR ''0'' CHR ''9'',
                       Chr CHR ''.'', Chr CHR ''_'', Chr CHR ''%'', Chr CHR ''+'', Chr CHR ''-'']),
      lit ''@'',
      plus (Cls False [Rng CHR ''A'' CHR ''Z'', Rng CHR ''a'' CHR ''z'', Rng CHR ''0'' CHR ''9'',
                       Chr CHR ''.'', Chr CHR ''-'']),
      lit ''.'',
      rep 2 None (Cls False [Rng CHR ''A'' CHR ''Z''])]"

text \<open>\<^verbatim>\<open>/\d{4}-\d{2}-\d{2} \d{2}:\d{2}:\d{2}/g\<close>\<close>

definition time_pattern :: regex where
  "time_pattern = seqs
     [rep 4 (Some 4) (one Digit), lit ''-'', rep 2 (Some 2) (one Digit), lit ''-'',
      rep 2 (Some 2) (one Digit), lit '' '', rep 2 (Some 2) (one Digit), lit '':'',
      rep 2 (Some 2) (one Digit), lit '':'', rep 2 (Some 2) (one Digit)]"

definition redactSensitive :: "ustring \<Rightarrow> ustring" where
  "redactSensitive text0 =
     replace_all False time_pattern (U ''[REDACTED_TIME]'')
       (replace_all True email_pattern (U ''[REDACTED_EMAIL]'')
         (replace_all True key_pattern (U ''[REDACTED_KEY]'')
           (replace_all False path_pattern (U ''[REDACTED_PATH]'')
             (replace_all False ip_pattern (U ''[REDACTED_IP]'') text0))))"

section \<open>The AI service (\<open>analyzeWithAI\<close> with redaction and cache)\<close>

text \<open>\<open>String.prototype.trim\<close>, and \<open>Buffer.byteLength(s, 'utf8')\<close>: a surrogate pair
  takes four bytes, a lone surrogate three, as the replacement character does.\<close>

definition trim :: "ustring \<Rightarrow> ustring" where
  "trim s = rev (dropWhile is_space (rev (dropWhile is_space s)))"

fun byteLength :: "ustring \<Rightarrow> nat" where
  "byteLength [] = 0"
| "byteLength (c # cs) =
     (if c < 128 then 1 + byteLength cs
      else if c < 2048 then 2 + byteLength cs
      else if 55296 \<le> c \<and> c \<le> 56319 then
        (case cs of
           [] \<Rightarrow> 3
         | d # ds \<Rightarrow> if 56320 \<le> d \<and> d \<le> 57343 then 4 + byteLength ds
                     else 3 + byteLength cs)
      else 3 + byteLength cs)"

text \<open>
  What one call reads from outside: the hash function, the answer of the model to the
  prompt built from a redacted log, the rendering of dates, the message of the
  \<open>SyntaxError\<close> that \<open>JSON.parse\<close> throws on a text, the \<open>stack\<close> property that the
  error report carries, the clock at each reading and whether writing the cache file
  throws.
\<close>

datatype ai_outcome = Fails ustring jsval | NoText | Text ustring

record env =
  sha256 :: "ustring \<Rightarrow> ustring"
  generateContent :: "ustring \<Rightarrow> ai_outcome"
  toISOString :: "int \<Rightarrow> ustring"
  syntax_message :: "ustring \<Rightarrow> ustring"
  error_stack :: jsval
  now_start :: int
  now_stat :: int
  now_analyzed :: int
  now_done :: int
  now_cachedAt :: int
  now_expires :: int
  now_mtime :: int
  now_error :: int
  write_throws :: bool

text \<open>
  The cache directory: for a hash, the file \<open>hash.json\<close> if there is one, with its
  modification time and what \<open>JSON.parse\<close> gives for its contents (\<open>None\<close> when reading or
  parsing throws).
\<close>

record cache_file =
  mtimeMs :: int
  contents :: "jsval option"

type_synonym cache_dir = "ustring \<Rightarrow> cache_file option"

definition generateContentHash :: "env \<Rightarrow> ustring \<Rightarrow> ustring" where
  "generateContentHash e content = sha256 e content"

definition getCachedResult :: "env \<Rightarrow> cache_dir \<Rightarrow> ustring \<Rightarrow> jsval" where
  "getCachedResult e dir hash =
     (case dir hash of
        None \<Rightarrow> JNull
      | Some stats \<Rightarrow>
         if now_stat e - mtimeMs stats > CACHE_TTL then JNull
         else (case contents stats of None \<Rightarrow> JNull | Some data \<Rightarrow> data))"

definition saveToCache :: "env \<Rightarrow> cache_dir \<Rightarrow> ustring \<Rightarrow> jsval \<Rightarrow> cache_dir" where
  "saveToCache e dir hash result =
     (if write_throws e then dir
      else dir(hash \<mapsto>
        \<lparr>mtimeMs = now_mtime e,
         contents = Some (stored (JObj
           (put (U ''expiresAt'') (JStr (toISOString e (now_expires e + CACHE_TTL)))
             (put (U ''cachedAt'') (JStr (toISOString e (now_cachedAt e)))
               (spread result)))))\<rparr>))"

text \<open>\<^verbatim>\<open>/\{[\s\S]*\}/\<close>\<close>

definition json_object :: regex where
  "json_object = seqs [lit ''{'', Star True (Cls False [Space, NSpace]), lit ''}'']"

definition requiredFields :: "ustring list" where
  "requiredFields =
     [U ''issueType'', U ''rootCause'', U ''suggestedFix'',
      U ''severity'', U ''category'', U ''confidence'']"

fun join :: "ustring \<Rightarrow> ustring list \<Rightarrow> ustring" where
  "join sep [] = []"
| "join sep [x] = x"
| "join sep (x # xs) = x @ sep @ join sep xs"

text \<open>The calls a run makes, in order, and what a run leaves behind.\<close>

datatype event = Redact | Hash | CacheRead | Generate | CacheWrite

record run =
  returned :: jsval
  dir_after :: cache_dir
  events :: "event list"

text \<open>The result of the outer \<open>catch\<close>, for an error with this message and \<open>code\<close>.\<close>

definition failure :: "env \<Rightarrow> ustring \<Rightarrow> jsval \<Rightarrow> jsval" where
  "failure e message code = JObj
     [(U ''success'', JBool False),
      (U ''error'', JObj
         [(U ''message'', JStr message),
          (U ''code'', if truthy code then code else JStr (U ''AI_SERVICE_ERROR'')),
          (U ''stack'', error_stack e),
          (U ''processingTimeMs'', num (now_error e - now_start e))]),
      (U ''metadata'', JObj [(U ''processingTimeMs'', num (now_error e - now_start e))])]"

text \<open>The inner \<open>try\<close>: the parsed response, or the message of what it throws.\<close>

definition parse_response :: "env \<Rightarrow> ustring \<Rightarrow> ustring + (ustring \<times> jsval) list" where
  "parse_response e text0 =
     (case match0 False json_object text0 of
        None \<Rightarrow> Inl (U ''No JSON found in AI response'')
      | Some jsonMatch \<Rightarrow>
         (case JSON_parse jsonMatch of
            Some (JObj parsed) \<Rightarrow>
              (let missingFields = filter (\<lambda>field. \<not> has field parsed) requiredFields
               in if missingFields \<noteq> [] then
                    Inl (U ''Missing required fields in AI response: '' @
                         join (U '', '') missingFields)
                  else Inr parsed)
          | _ \<Rightarrow> Inl (syntax_message e jsonMatch)))"

text \<open>The result that is returned and cached when the response has every required field.\<close>

definition analysisResult ::
  "env \<Rightarrow> ustring \<Rightarrow> ustring \<Rightarrow> ustring \<Rightarrow> (ustring \<times> jsval) list \<Rightarrow> jsval" where
  "analysisResult e logText redactedLog logHash parsed = JObj
     [(U ''success'', JBool True),
      (U ''analysis'', JObj
         (put (U ''processingTimeMs'') (num (now_done e - now_start e))
           (put (U ''analyzedAt'') (JStr (toISOString e (now_analyzed e)))
             (put (U ''logHash'') (JStr logHash) parsed)))),
      (U ''metadata'', JObj
         [(U ''logSize'', num (int (length logText))),
          (U ''redactedLogSize'', num (int (length redactedLog))),
          (U ''cacheHit'', JBool False)])]"

text \<open>
  \<open>analyzeWithAI(log, { force })\<close> of the AI service. A value that is no string is
  rejected as the empty string is.
\<close>

definition analyzeWithAI_gemini :: "env \<Rightarrow> cache_dir \<Rightarrow> js_input \<Rightarrow> bool \<Rightarrow> run" where
  "analyzeWithAI_gemini e dir log0 force =
     (case log0 of
        InString logText \<Rightarrow>
          if trim logText = [] then
            \<lparr>returned = failure e (U ''Log content is empty or invalid'') JUndefined,
             dir_after = dir, events = []\<rparr>
          else if byteLength logText > MAX_LOG_SIZE then
            \<lparr>returned = failure e (U ''Log exceeds maximum size of 5MB'') JUndefined,
             dir_after = dir, events = []\<rparr>
          else
            let redactedLog = redactSensitiveInfo logText;
                logHash = generateContentHash e redactedLog;
                cached = (if force then JNull else getCachedResult e dir logHash);
                before = [Redact, Hash] @ (if force then [] else [CacheRead])
            in if truthy cached then
                 \<lparr>returned = JObj (put (U ''cached'') (JBool True) (spread cached)),
                  dir_after = dir, events = before\<rparr>
               else
                 (case generateContent e redactedLog of
                    Fails message code \<Rightarrow>
                      \<lparr>returned = failure e message code,
                       dir_after = dir, events = before @ [Generate]\<rparr>
                  | NoText \<Rightarrow>
                      \<lparr>returned = failure e (U ''No valid response from AI service'') JUndefined,
                       dir_after = dir, events = before @ [Generate]\<rparr>
                  | Text text0 \<Rightarrow>
                      (case parse_response e text0 of
                         Inl message \<Rightarrow>
                           \<lparr>returned =
                              failure e (U ''Failed to parse AI response: '' @ message) JUndefined,
                            dir_after = dir, events = before @ [Generate]\<rparr>
                       | Inr parsed \<Rightarrow>
                           \<lparr>returned = analysisResult e logText redactedLog logHash parsed,
                            dir_after = saveToCache e dir logHash
                              (analysisResult e logText redactedLog logHash parsed),
                            events = before @ [Generate, CacheWrite]\<rparr>))
      | _ \<Rightarrow>
          \<lparr>returned = failure e (U ''Log content is empty or invalid'') JUndefined,
           dir_after = dir, events = []\<rparr>)"

section \<open>The route \<open>POST /analyze\<close>\<close>

text \<open>
  The uploaded file as multer describes it, and the response. The handler reads the
  file from disk and calls the classifier it imports; both are arguments here, and
  either may throw (\<open>Inl\<close>).
\<close>

record upload =
  originalname :: ustring
  path :: ustring
  filename :: ustring

record reply =
  status :: nat
  body :: jsval

definition fallback_analysis :: "jsval \<Rightarrow> jsval" where
  "fallback_analysis errorInfo = JObj
     [(U ''issueType'', JStr (U ''Analysis service unavailable'')),
      (U ''rootCause'',
         if truthy (get errorInfo (U ''message'')) then get errorInfo (U ''message'')
         else JStr (U ''The AI analysis service is currently unavailable or returned an invalid response.'')),
      (U ''suggestedFix'', strs
         [U ''Check the backend logs for AI service errors.'',
          U ''Verify GEMINI_API_KEY and network access to the Gemini API.'']),
      (U ''severity'', JStr (U ''Medium'')),
      (U ''category'', JStr (U ''configuration'')),
      (U ''confidence'', num 50),
      (U ''relatedLogs'', strs [U ''AI service error'', U ''Gemini API'', U ''GEMINI_API_KEY''])]"

definition analyze_route ::
  "(ustring \<Rightarrow> ustring) \<Rightarrow> (ustring \<Rightarrow> jsval + ustring) \<Rightarrow> (ustring \<Rightarrow> jsval + jsval) \<Rightarrow>
   jsval \<Rightarrow> upload option \<Rightarrow> reply" where
  "analyze_route join_uploadDir readFile analyze dev_stack file =
     (case file of
        None \<Rightarrow>
          \<lparr>status = 400,
           body = JObj [(U ''success'', JBool False), (U ''error'', JStr (U ''No file uploaded''))]\<rparr>
      | Some f \<Rightarrow>
          let filePath = (if path f \<noteq> [] then path f else join_uploadDir (filename f))
          in if filePath = [] then
               \<lparr>status = 500,
                body = JObj [(U ''success'', JBool False),
                             (U ''error'', JStr (U ''File path missing on server''))]\<rparr>
             else
               let caught = (\<lambda>err.
                     \<lparr>status = 500,
                      body = JObj
                        [(U ''success'', JBool False),
                         (U ''error'', if truthy (get err (U ''message'')) then get err (U ''message'')
                                       else JStr (U ''Internal server error'')),
                         (U ''stack'', dev_stack)]\<rparr>)
               in (case readFile filePath of
                     Inl err \<Rightarrow> caught err
                   | Inr logText \<Rightarrow>
                       if trim logText = [] then
                         \<lparr>status = 400,
                          body = JObj [(U ''success'', JBool False),
                                       (U ''error'', JStr (U ''The uploaded file is empty''))]\<rparr>
                       else
                         (case analyze logText of
                            Inl err \<Rightarrow> caught err
                          | Inr aiResult \<Rightarrow>
                              if \<not> truthy aiResult \<or> get aiResult (U ''success'') = JBool False then
                                \<lparr>status = 200,
                                 body = JObj
                                   [(U ''success'', JBool True),
                                    (U ''analysis'', fallback_analysis (get aiResult (U ''error''))),
                                    (U ''metadata'',
                                       if truthy (get aiResult (U ''metadata''))
                                       then get aiResult (U ''metadata'') else JObj []),
                                    (U ''filename'', JStr (originalname f)),
                                    (U ''fallback'', JBool True)]\<rparr>
                              else
                                \<lparr>status = 200,
                                 body = JObj
                                   [(U ''success'', JBool True),
                                    (U ''analysis'', get aiResult (U ''analysis'')),
                                    (U ''metadata'', get aiResult (U ''metadata'')),
                                    (U ''filename'', JStr (originalname f))]\<rparr>)))"

section \<open>Evaluation of the runtime model\<close>

lemma U_eq_iff: "(U a = U b) = (a = b)"
  unfolding U_def by (simp add: inj_map_eq_map inj_on_def)

lemma U_Nil_iff: "(U a = []) = (a = [])"
  by (simp add: U_def)

lemmas cls_defs = is_digit_def is_upper_def is_lower_def is_word_def is_space_def
  is_line_terminator_def to_upper_def to_lower_def canon_def word_before_def word_after_def

lemma times_numeral: "times (numeral k) r = Seq r (times (pred_numeral k) r)"
  by (simp add: numeral_eq_Suc)

lemma upto_numeral: "upto (numeral k) r = opt (Seq r (upto (pred_numeral k) r))"
  by (simp add: numeral_eq_Suc)

lemmas re_defs = one_def opt_def rep_def plus_def times_numeral upto_numeral

lemmas re_eval = test_def match0_def replace_all_def replace_from.simps U_def cls_defs re_defs

lemmas json_eval = JSON_parse_def json_value.simps members.simps elements.simps U_def ws_def
  is_json_ws_def keyword_def number_def is_digit_def digits_value_def to_double_def
  simple_escape_def hex_digit_def

section \<open>Records of the pattern classifier\<close>

text \<open>
  A field is populated when it holds a value other than \<open>undefined\<close>, \<open>null\<close> and the empty
  string. A record is complete when its four text fields are populated, \<open>suggestedFix\<close> is
  a non-empty array, \<open>confidence\<close> is an integer from 0 to 100 and \<open>relatedLogs\<close> is an
  array.
\<close>

definition populated :: "jsval \<Rightarrow> bool" where
  "populated v = (v \<noteq> JUndefined \<and> v \<noteq> JNull \<and> v \<noteq> JStr [])"

definition in_range :: "jsval \<Rightarrow> bool" where
  "in_range v = (case v of JNum (Fin q) \<Rightarrow> q = of_int \<lfloor>q\<rfloor> \<and> 0 \<le> q \<and> q \<le> 100 | _ \<Rightarrow> False)"

definition complete :: "jsval \<Rightarrow> bool" where
  "complete a =
     (populated (get a (U ''issueType'')) \<and>
      populated (get a (U ''rootCause'')) \<and>
      (case get a (U ''suggestedFix'') of JArr xs \<Rightarrow> xs \<noteq> [] | _ \<Rightarrow> False) \<and>
      populated (get a (U ''severity'')) \<and>
      populated (get a (U ''category'')) \<and>
      in_range (get a (U ''confidence'')) \<and>
      (case get a (U ''relatedLogs'') of JArr xs \<Rightarrow> True | _ \<Rightarrow> False))"

lemma patterns_cases:
  "p \<in> set patterns \<Longrightarrow>
   p = http_5xx \<or> p = timeout \<or> p = db_connection \<or> p = db_query \<or> p = auth \<or> p = oom \<or>
   p = generic_error \<or> p = warning_only"
  by (auto simp: patterns_def)

lemma complete_analysis_of:
  "issueType v \<noteq> [] \<Longrightarrow> rootCause v \<noteq> [] \<Longrightarrow> suggestedFix v \<noteq> [] \<Longrightarrow> severity v \<noteq> [] \<Longrightarrow>
   category v \<noteq> [] \<Longrightarrow> 0 \<le> confidence v \<Longrightarrow> confidence v \<le> 100 \<Longrightarrow>
   complete (analysis_of v)"
  by (simp add: complete_def analysis_of_def populated_def in_range_def U_eq_iff strs_def num_def)

lemma complete_http_5xx: "complete (analysis_of (update http_5xx))"
  by (rule complete_analysis_of; simp add: http_5xx_def U_Nil_iff)

lemma complete_timeout: "complete (analysis_of (update timeout))"
  by (rule complete_analysis_of; simp add: timeout_def U_Nil_iff)

lemma complete_db_connection: "complete (analysis_of (update db_connection))"
  by (rule complete_analysis_of; simp add: db_connection_def U_Nil_iff)

lemma complete_db_query: "complete (analysis_of (update db_query))"
  by (rule complete_analysis_of; simp add: db_query_def U_Nil_iff)

lemma complete_auth: "complete (analysis_of (update auth))"
  by (rule complete_analysis_of; simp add: auth_def U_Nil_iff)

lemma complete_oom: "complete (analysis_of (update oom))"
  by (rule complete_analysis_of; simp add: oom_def U_Nil_iff)

lemma complete_generic_error: "complete (analysis_of (update generic_error))"
  by (rule complete_analysis_of; simp add: generic_error_def U_Nil_iff)

lemma complete_warning_only: "complete (analysis_of (update warning_only))"
  by (rule complete_analysis_of; simp add: warning_only_def U_Nil_iff)

lemma complete_update:
  "p \<in> set patterns \<Longrightarrow> complete (analysis_of (update p))"
proof -
  assume "p \<in> set patterns"
  then consider "p = http_5xx" | "p = timeout" | "p = db_connection" | "p = db_query" 
    | "p = auth" | "p = oom" | "p = generic_error" | "p = warning_only"
    using patterns_cases by blast
  then show ?thesis
  proof cases
    case 1 then show ?thesis by (simp only: complete_http_5xx)
  next
    case 2 then show ?thesis by (simp only: complete_timeout)
  next
    case 3 then show ?thesis by (simp only: complete_db_connection)
  next
    case 4 then show ?thesis by (simp only: complete_db_query)
  next
    case 5 then show ?thesis by (simp only: complete_auth)
  next
    case 6 then show ?thesis by (simp only: complete_oom)
  next
    case 7 then show ?thesis by (simp only: complete_generic_error)
  next
    case 8 then show ?thesis by (simp only: complete_warning_only)
  qed
qed

lemma complete_classify: "complete (analysis_of (classify t))"
proof (cases "find (\<lambda>p. test True (match p) t) patterns")
  case None
  have "complete (analysis_of generic_error_detected)"
    by (rule complete_analysis_of; simp add: generic_error_detected_def U_Nil_iff)
  moreover have "complete (analysis_of initial)"
    by (rule complete_analysis_of; simp add: initial_def U_Nil_iff)
  ultimately show ?thesis using None by (simp add: classify_def)
next
  case (Some p)
  then have "p \<in> set patterns"
    by (auto simp: find_Some_iff)
  then show ?thesis using Some by (simp add: classify_def complete_update)
qed

lemma analyzeWithAI_Returns:
  "to_text v = Returns t \<Longrightarrow>
   get (analyzeWithAI ts v) (U ''success'') = JBool True \<and>
   get (analyzeWithAI ts v) (U ''analysis'') = analysis_of (classify t) \<and>
   get (analyzeWithAI ts v) (U ''error'') = JUndefined"
  by (simp add: analyzeWithAI_def succeeded_def U_eq_iff)

lemma analyzeWithAI_Throws:
  "to_text v = Throws err \<Longrightarrow>
   get (analyzeWithAI ts v) (U ''success'') = JBool False \<and>
   get (analyzeWithAI ts v) (U ''analysis'') = JUndefined \<and>
   get (analyzeWithAI ts v) (U ''error'') = err"
  by (simp add: analyzeWithAI_def caught_def U_eq_iff)

lemma analyzeWithAI_Wraps:
  "to_text v = Wraps conv \<Longrightarrow> classify_wrapped conv 0 patterns = Inr x \<Longrightarrow>
   get (analyzeWithAI ts v) (U ''success'') = JBool True \<and>
   get (analyzeWithAI ts v) (U ''analysis'') = analysis_of x \<and>
   get (analyzeWithAI ts v) (U ''error'') = JUndefined"
  by (simp add: analyzeWithAI_def succeeded_def U_eq_iff)

lemma analyzeWithAI_Wraps_Inl:
  "to_text v = Wraps conv \<Longrightarrow> classify_wrapped conv 0 patterns = Inl err \<Longrightarrow>
   get (analyzeWithAI ts v) (U ''success'') = JBool False \<and>
   get (analyzeWithAI ts v) (U ''analysis'') = JUndefined \<and>
   get (analyzeWithAI ts v) (U ''error'') = err"
  by (simp add: analyzeWithAI_def caught_def U_eq_iff)

lemma complete_generic_error_detected: "complete (analysis_of generic_error_detected)"
  by (rule complete_analysis_of; simp add: generic_error_detected_def U_Nil_iff)

lemma complete_initial: "complete (analysis_of initial)"
  by (rule complete_analysis_of; simp add: initial_def U_Nil_iff)

lemma classify_wrapped_complete:
  "set ps \<subseteq> set patterns \<Longrightarrow> classify_wrapped conv k ps = Inr x \<Longrightarrow> complete (analysis_of x)"
proof (induction ps arbitrary: k)
  case Nil
  then show ?case
    by (auto simp: complete_generic_error_detected complete_initial
        split: conversion.splits if_splits)
next
  case (Cons p ps)
  then show ?case
    by (auto simp: complete_update split: conversion.splits if_splits)
qed

lemma classify_wrapped_Gives:
  "\<forall>k err. conv k \<noteq> Raises err \<Longrightarrow> \<exists>x. classify_wrapped conv k ps = Inr x"
proof (induction ps arbitrary: k)
  case Nil
  then show ?case
    by (cases "conv k") auto
next
  case (Cons p ps)
  then show ?case
    by (cases "conv k") auto
qed

lemma match_http_5xx:
  "match http_5xx =
     alts [seqs [one Space, lit ''5'', rep 2 (Some 2) (one Digit), one Space],
           lit ''500 Internal Server Error'', lit ''HTTP 500'']"
  by (simp add: http_5xx_def)

lemma match_timeout:
  "match timeout =
     alts [lit ''timeout'', lit ''timed out'', lit ''ESOCKETTIMEDOUT'', lit ''ETIMEDOUT'']"
  by (simp add: timeout_def)

lemma match_db_connection:
  "match db_connection =
     alts [seqs [lit ''ECONNREFUSED'', Star True Dot,
                 alts [lit ''postgres'', lit ''mysql'', lit ''mongo'', lit ''database'']],
           lit ''database connection failed'', lit ''could not connect to server'']"
  by (simp add: db_connection_def)

lemma match_generic_error:
  "match generic_error =
     alts [lit ''exception'', lit ''stack trace'', lit ''unhandled rejection'',
           lit ''fatal error'', lit ''TypeError'', lit ''ReferenceError'']"
  by (simp add: generic_error_def)

section \<open>C10: the pattern classifier on every input\<close>

text \<open>
  C10, as the code has it. For every input on which no conversion to a string throws, the
  classifier returns \<open>success: true\<close> and no \<open>error\<close>, with an analysis in which all
  seven fields are populated, \<open>suggestedFix\<close> is not empty and \<open>confidence\<close> is an integer
  from 0 to 100. These inputs are \<open>undefined\<close>, \<open>null\<close>, every string, the empty one
  included, every other primitive value, every object whose \<open>toString\<close> gives a string,
  and every object whose \<open>toString\<close> gives an object with a \<open>toLowerCase\<close> method that
  every test of a pattern converts to a string. The error branch is reachable: for every
  input on which \<open>(logText || '').toString()\<close> or \<open>text.toLowerCase()\<close> throws, or on
  which the test of the first pattern throws while it converts \<open>text\<close> to a string, the
  classifier returns \<open>success: false\<close>, no analysis, and what was thrown as \<open>error\<close>.
\<close>

theorem classifier_total:
  "((\<forall>err. v \<noteq> InObject (Throws err)) \<and>
    (\<forall>conv k err. v = InObject (Wraps conv) \<longrightarrow> conv k \<noteq> Raises err) \<longrightarrow>
      get (analyzeWithAI ts v) (U ''success'') = JBool True \<and>
      get (analyzeWithAI ts v) (U ''error'') = JUndefined \<and>
      complete (get (analyzeWithAI ts v) (U ''analysis''))) \<and>
   (v = InObject (Throws thrown) \<longrightarrow>
      get (analyzeWithAI ts v) (U ''success'') = JBool False \<and>
      get (analyzeWithAI ts v) (U ''analysis'') = JUndefined \<and>
      get (analyzeWithAI ts v) (U ''error'') = thrown) \<and>
   (v = InObject (Wraps conv) \<and> conv 0 = Raises thrown \<longrightarrow>
      get (analyzeWithAI ts v) (U ''success'') = JBool False \<and>
      get (analyzeWithAI ts v) (U ''analysis'') = JUndefined \<and>
      get (analyzeWithAI ts v) (U ''error'') = thrown)"
proof (intro conjI impI)
  assume a: "(\<forall>err. v \<noteq> InObject (Throws err)) \<and>
    (\<forall>conv k err. v = InObject (Wraps conv) \<longrightarrow> conv k \<noteq> Raises err)"
  have "get (analyzeWithAI ts v) (U ''success'') = JBool True \<and>
      get (analyzeWithAI ts v) (U ''error'') = JUndefined \<and>
      complete (get (analyzeWithAI ts v) (U ''analysis''))"
  proof (cases "to_text v")
    case (Returns t)
    then show ?thesis
      using analyzeWithAI_Returns [OF Returns, of ts] by (simp add: complete_classify)
  next
    case (Throws err)
    with a show ?thesis by (cases v) auto
  next
    case (Wraps conv)
    with a have "\<forall>k err. conv k \<noteq> Raises err"
      by (cases v) auto
    then obtain x where x: "classify_wrapped conv 0 patterns = Inr x"
      using classify_wrapped_Gives by blast
    then have "complete (analysis_of x)"
      using classify_wrapped_complete [of patterns conv 0 x] by simp
    then show ?thesis
      using analyzeWithAI_Wraps [OF Wraps x, of ts] by simp
  qed
  then show "get (analyzeWithAI ts v) (U ''success'') = JBool True"
    and "get (analyzeWithAI ts v) (U ''error'') = JUndefined"
    and "complete (get (analyzeWithAI ts v) (U ''analysis''))"
    by simp_all
next
  assume "v = InObject (Throws thrown)"
  then have t: "to_text v = Throws thrown"
    by simp
  show "get (analyzeWithAI ts v) (U ''success'') = JBool False"
    and "get (analyzeWithAI ts v) (U ''analysis'') = JUndefined"
    and "get (analyzeWithAI ts v) (U ''error'') = thrown"
    using analyzeWithAI_Throws [OF t, of ts] by simp_all
next
  assume a: "v = InObject (Wraps conv) \<and> conv 0 = Raises thrown"
  then have t: "to_text v = Wraps conv"
    by simp
  have c: "classify_wrapped conv 0 patterns = Inl thrown"
    using a by (simp add: patterns_def)
  show "get (analyzeWithAI ts v) (U ''success'') = JBool False"
    and "get (analyzeWithAI ts v) (U ''analysis'') = JUndefined"
    and "get (analyzeWithAI ts v) (U ''error'') = thrown"
    using analyzeWithAI_Wraps_Inl [OF t c, of ts] by simp_all
qed

text \<open>
  The witnesses: \<open>null\<close>, which gives the initial record, and an object without a
  \<open>toString\<close> method, which gives the error.
\<close>

theorem classifier_total_witness:
  "(\<forall>err. InNull \<noteq> InObject (Throws err)) \<and>
   (\<forall>conv. InNull \<noteq> InObject (Wraps conv)) \<and>
   get (analyzeWithAI (U ''2024-01-01T00:00:00.000Z'') InNull) (U ''success'') = JBool True \<and>
   complete (get (analyzeWithAI (U ''2024-01-01T00:00:00.000Z'') InNull) (U ''analysis'')) \<and>
   get (analyzeWithAI (U ''2024-01-01T00:00:00.000Z'')
          (InObject (Throws (JObj [(U ''message'', JStr (U ''toString is not a function''))]))))
       (U ''error'') = JObj [(U ''message'', JStr (U ''toString is not a function''))]"
proof -
  have h: "(\<forall>err. InNull \<noteq> InObject (Throws err)) \<and>
      (\<forall>conv k err. InNull = InObject (Wraps conv) \<longrightarrow> conv k \<noteq> Raises err)"
    by simp
  note total = classifier_total [THEN conjunct1, rule_format]
  note thrown = classifier_total [THEN conjunct2, THEN conjunct1, rule_format]
  have n: "\<forall>conv. InNull \<noteq> InObject (Wraps conv)"
    by simp
  show ?thesis
    using h n total [OF h, of "U ''2024-01-01T00:00:00.000Z''"]
      thrown [OF refl, of "U ''2024-01-01T00:00:00.000Z''"
        "JObj [(U ''message'', JStr (U ''toString is not a function''))]"]
    by blast
qed

text \<open>
  The claim as stated fails: the error branch is reached by an object without a
  \<open>toString\<close> method, such as \<open>Object.create(null)\<close>, on which
  \<open>(logText || '').toString()\<close> throws a \<open>TypeError\<close>.
\<close>

theorem classifier_error_branch_reached:
  "get (analyzeWithAI (U ''2024-01-01T00:00:00.000Z'')
          (InObject (Throws (JObj [(U ''message'', JStr (U ''toString is not a function''))]))))
       (U ''success'') = JBool False"
  by (simp add: analyzeWithAI_def caught_def U_eq_iff)

section \<open>C5: the database scenario\<close>

definition scenario_log :: ustring where
  "scenario_log = U ''2024-01-01 10:00:00 ECONNREFUSED connecting to postgres database''"

lemma scenario_not_http_5xx: "\<not> test True (match http_5xx) scenario_log"
  unfolding match_http_5xx by (simp add: scenario_log_def re_eval)

lemma scenario_not_timeout: "\<not> test True (match timeout) scenario_log"
  unfolding match_timeout by (simp add: scenario_log_def re_eval)

lemma scenario_db_connection: "test True (match db_connection) scenario_log"
  unfolding match_db_connection by (simp add: scenario_log_def re_eval)

lemma scenario_find:
  "find (\<lambda>p. test True (match p) scenario_log) patterns = Some db_connection"
  by (simp add: patterns_def scenario_not_http_5xx scenario_not_timeout scenario_db_connection)

lemma scenario_before:
  "takeWhile (\<lambda>p. \<not> test True (match p) scenario_log) patterns = [http_5xx, timeout]"
  by (simp add: patterns_def scenario_not_http_5xx scenario_not_timeout scenario_db_connection)

lemma db_connection_fields:
  "get (analysis_of (update db_connection)) (U ''category'') = JStr (U ''database'') \<and>
   get (analysis_of (update db_connection)) (U ''severity'') = JStr (U ''Critical'') \<and>
   get (analysis_of (update db_connection)) (U ''issueType'') = JStr (U ''Database connection failure'')"
  by (simp add: analysis_of_def db_connection_def U_eq_iff)

text \<open>
  C5. On the input \<^verbatim>\<open>2024-01-01 10:00:00 ECONNREFUSED connecting to postgres database\<close>
  the classifier returns a record with category \<open>database\<close>, severity \<open>Critical\<close> and
  issue type \<open>Database connection failure\<close>: \<open>db_connection\<close> is the first entry of
  \<open>patterns\<close> that matches, and the entries before it, \<open>http_5xx\<close> and \<open>timeout\<close>, do
  not match.
\<close>

theorem scenario_database_connection:
  "get (get (analyzeWithAI ts (InString
      (U ''2024-01-01 10:00:00 ECONNREFUSED connecting to postgres database''))) (U ''analysis''))
     (U ''category'') = JStr (U ''database'') \<and>
   get (get (analyzeWithAI ts (InString
      (U ''2024-01-01 10:00:00 ECONNREFUSED connecting to postgres database''))) (U ''analysis''))
     (U ''severity'') = JStr (U ''Critical'') \<and>
   get (get (analyzeWithAI ts (InString
      (U ''2024-01-01 10:00:00 ECONNREFUSED connecting to postgres database''))) (U ''analysis''))
     (U ''issueType'') = JStr (U ''Database connection failure'') \<and>
   find (\<lambda>p. test True (match p)
      (U ''2024-01-01 10:00:00 ECONNREFUSED connecting to postgres database'')) patterns
     = Some db_connection \<and>
   takeWhile (\<lambda>p. \<not> test True (match p)
      (U ''2024-01-01 10:00:00 ECONNREFUSED connecting to postgres database'')) patterns
     = [http_5xx, timeout]"
proof -
  have t: "to_text (InString scenario_log) = Returns scenario_log"
    by simp
  have c: "classify scenario_log = update db_connection"
    by (simp add: classify_def scenario_find)
  have "get (analyzeWithAI ts (InString scenario_log)) (U ''analysis'')
          = analysis_of (update db_connection)"
    using analyzeWithAI_Returns [OF t, of ts] by (simp add: c)
  then have "get (get (analyzeWithAI ts (InString scenario_log)) (U ''analysis''))
          (U ''category'') = JStr (U ''database'') \<and>
        get (get (analyzeWithAI ts (InString scenario_log)) (U ''analysis''))
          (U ''severity'') = JStr (U ''Critical'') \<and>
        get (get (analyzeWithAI ts (InString scenario_log)) (U ''analysis''))
          (U ''issueType'') = JStr (U ''Database connection failure'') \<and>
        find (\<lambda>p. test True (match p) scenario_log) patterns = Some db_connection \<and>
        takeWhile (\<lambda>p. \<not> test True (match p) scenario_log) patterns = [http_5xx, timeout]"
    by (simp only: db_connection_fields scenario_find scenario_before)
  then show ?thesis
    unfolding scenario_log_def .
qed

section \<open>C4: the first matching entry wins\<close>

lemma http_5xx_issueType:
  "get (analysis_of (update http_5xx)) (U ''issueType'') = JStr (U ''HTTP 5xx server error'')"
  by (simp add: analysis_of_def http_5xx_def U_eq_iff)

lemma generic_error_issueType:
  "get (analysis_of (update generic_error)) (U ''issueType'') = JStr (U ''Application runtime error'')"
  by (simp add: analysis_of_def generic_error_def U_eq_iff)

lemma patterns_distinct_records:
  "analysis_of (update http_5xx) \<noteq> analysis_of (update generic_error)"
proof
  assume "analysis_of (update http_5xx) = analysis_of (update generic_error)"
  then have "get (analysis_of (update http_5xx)) (U ''issueType'')
    = get (analysis_of (update generic_error)) (U ''issueType'')"
    by simp
  then show False
    unfolding http_5xx_issueType generic_error_issueType by (simp add: U_eq_iff)
qed

lemma classify_first_match:
  assumes "i < length patterns" and "test True (match (patterns ! i)) t"
    and "\<forall>j<i. \<not> test True (match (patterns ! j)) t"
  shows "classify t = update (patterns ! i)"
proof -
  have "find (\<lambda>p. test True (match p) t) patterns = Some (patterns ! i)"
    unfolding find_Some_iff using assms by blast
  then show ?thesis
    by (simp add: classify_def)
qed

lemma classify_no_match:
  assumes "\<forall>p\<in>set patterns. \<not> test True (match p) t"
  shows "classify t = (if test True error_keyword t then generic_error_detected else initial)"
proof -
  have "find (\<lambda>p. test True (match p) t) patterns = None"
    unfolding find_None_iff using assms by blast
  then show ?thesis
    by (simp add: classify_def)
qed

text \<open>
  C4. The classifier goes through its ordered list \<open>patterns\<close> from the top and the
  first match wins: the record it returns is that of the entry with the least index
  whose pattern matches the text, and when no entry matches it is the generic error
  record if \<^verbatim>\<open>/error|fail(ed)?/i\<close> matches and the initial record otherwise. The
  list starts with \<open>http_5xx\<close> and has \<open>generic_error\<close> in the seventh place, so for
  every text that the patterns of both match, the classifier returns the record of
  \<open>http_5xx\<close>, with issue type \<open>HTTP 5xx server error\<close>, and not the record of
  \<open>generic_error\<close>.
\<close>

theorem first_match_wins:
  "patterns =
     [http_5xx, timeout, db_connection, db_query, auth, oom, generic_error, warning_only] \<and>
   (i < length patterns \<and> test True (match (patterns ! i)) t \<and>
    (\<forall>j<i. \<not> test True (match (patterns ! j)) t) \<longrightarrow>
      get (analyzeWithAI ts (InString t)) (U ''analysis'')
        = analysis_of (update (patterns ! i))) \<and>
   ((\<forall>p\<in>set patterns. \<not> test True (match p) t) \<longrightarrow>
      get (analyzeWithAI ts (InString t)) (U ''analysis'')
        = analysis_of (if test True error_keyword t then generic_error_detected else initial)) \<and>
   (test True (match http_5xx) t \<and> test True (match generic_error) t \<longrightarrow>
      get (analyzeWithAI ts (InString t)) (U ''analysis'') = analysis_of (update http_5xx) \<and>
      get (get (analyzeWithAI ts (InString t)) (U ''analysis'')) (U ''issueType'')
        = JStr (U ''HTTP 5xx server error'') \<and>
      get (analyzeWithAI ts (InString t)) (U ''analysis'') \<noteq> analysis_of (update generic_error))"
proof -
  have r: "get (analyzeWithAI ts (InString t)) (U ''analysis'') = analysis_of (classify t)"
    using analyzeWithAI_Returns [of "InString t" t ts] by simp
  have first: "get (analyzeWithAI ts (InString t)) (U ''analysis'')
      = analysis_of (update (patterns ! i))"
    if "i < length patterns \<and> test True (match (patterns ! i)) t \<and>
      (\<forall>j<i. \<not> test True (match (patterns ! j)) t)" for i
    using that classify_first_match [of i t] by (simp add: r)
  have none: "get (analyzeWithAI ts (InString t)) (U ''analysis'')
      = analysis_of (if test True error_keyword t then generic_error_detected else initial)"
    if "\<forall>p\<in>set patterns. \<not> test True (match p) t"
    using that classify_no_match [of t] by (simp only: r)
  have both: "get (analyzeWithAI ts (InString t)) (U ''analysis'') = analysis_of (update http_5xx) \<and>
      get (get (analyzeWithAI ts (InString t)) (U ''analysis'')) (U ''issueType'')
        = JStr (U ''HTTP 5xx server error'') \<and>
      get (analyzeWithAI ts (InString t)) (U ''analysis'') \<noteq> analysis_of (update generic_error)"
    if "test True (match http_5xx) t \<and> test True (match generic_error) t"
  proof -
    have "0 < length patterns \<and> test True (match (patterns ! 0)) t \<and>
        (\<forall>j<0. \<not> test True (match (patterns ! j)) t)"
      using that by (simp add: patterns_def)
    then have "get (analyzeWithAI ts (InString t)) (U ''analysis'')
        = analysis_of (update (patterns ! 0))"
      by (rule first)
    then have "get (analyzeWithAI ts (InString t)) (U ''analysis'') = analysis_of (update http_5xx)"
      by (simp add: patterns_def)
    then show ?thesis
      by (simp only: http_5xx_issueType patterns_distinct_records not_False_eq_True simp_thms)
  qed
  have order: "patterns =
     [http_5xx, timeout, db_connection, db_query, auth, oom, generic_error, warning_only]"
    by (rule patterns_def)
  show ?thesis
    using order first [of i] none both by blast
qed

definition both_log :: ustring where
  "both_log = U ''GET /orders HTTP 500 NullPointerException''"

lemma both_http_5xx: "test True (match http_5xx) both_log"
  unfolding match_http_5xx by (simp add: both_log_def re_eval)

lemma both_generic_error: "test True (match generic_error) both_log"
  unfolding match_generic_error by (simp add: both_log_def re_eval)

text \<open>
  The witnesses: a request line with status 500 and an exception name, which both
  patterns match, and the text of the database scenario, on which the entry with index 2
  is the first that matches.
\<close>

theorem first_match_wins_witness:
  "test True (match http_5xx) (U ''GET /orders HTTP 500 NullPointerException'') \<and>
   test True (match generic_error) (U ''GET /orders HTTP 500 NullPointerException'') \<and>
   get (get (analyzeWithAI (U ''2024-01-01T00:00:00.000Z'')
          (InString (U ''GET /orders HTTP 500 NullPointerException''))) (U ''analysis''))
     (U ''issueType'') = JStr (U ''HTTP 5xx server error'') \<and>
   2 < length patterns \<and>
   test True (match (patterns ! 2))
     (U ''2024-01-01 10:00:00 ECONNREFUSED connecting to postgres database'') \<and>
   \<not> test True (match (patterns ! 0))
     (U ''2024-01-01 10:00:00 ECONNREFUSED connecting to postgres database'') \<and>
   \<not> test True (match (patterns ! 1))
     (U ''2024-01-01 10:00:00 ECONNREFUSED connecting to postgres database'') \<and>
   get (analyzeWithAI (U ''2024-01-01T00:00:00.000Z'')
          (InString (U ''2024-01-01 10:00:00 ECONNREFUSED connecting to postgres database'')))
     (U ''analysis'') = analysis_of (update (patterns ! 2))"
proof -
  note first = first_match_wins [THEN conjunct2, THEN conjunct1, rule_format]
  note both = first_match_wins
    [THEN conjunct2, THEN conjunct2, THEN conjunct2, rule_format]
  have p: "patterns ! 0 = http_5xx" "patterns ! 1 = timeout" "patterns ! 2 = db_connection"
    "2 < length patterns"
    by (simp_all add: patterns_def)
  have l: "\<forall>j<2. \<not> test True (match (patterns ! j)) scenario_log"
    using scenario_not_http_5xx scenario_not_timeout p by (auto simp: less_2_cases_iff)
  have h: "2 < length patterns \<and> test True (match (patterns ! 2)) scenario_log \<and>
      (\<forall>j<2. \<not> test True (match (patterns ! j)) scenario_log)"
    using p l scenario_db_connection by simp
  have "get (get (analyzeWithAI (U ''2024-01-01T00:00:00.000Z'') (InString both_log))
          (U ''analysis'')) (U ''issueType'') = JStr (U ''HTTP 5xx server error'')"
    using both [OF conjI [OF both_http_5xx both_generic_error]] by blast
  moreover have "get (analyzeWithAI (U ''2024-01-01T00:00:00.000Z'') (InString scenario_log))
      (U ''analysis'') = analysis_of (update (patterns ! 2))"
    by (rule first [OF h])
  ultimately show ?thesis
    using both_http_5xx both_generic_error scenario_db_connection scenario_not_http_5xx
      scenario_not_timeout p
    unfolding both_log_def scenario_log_def by simp
qed

section \<open>Runs of the AI service\<close>

text \<open>An environment for the witnesses: the model gives no answer, the clock stands still,
  the hash is a stand-in without collisions.\<close>

definition env0 :: env where
  "env0 =
     \<lparr>sha256 = (\<lambda>s. s), generateContent = (\<lambda>redacted. NoText),
      toISOString = (\<lambda>t. U ''2024-01-01T00:00:00.000Z''),
      syntax_message = (\<lambda>s. U ''Unexpected token''), error_stack = JUndefined,
      now_start = 0, now_stat = 0, now_analyzed = 0, now_done = 0, now_cachedAt = 0,
      now_expires = 0, now_mtime = 0, now_error = 0, write_throws = False\<rparr>"

lemma run_empty:
  "trim t = [] \<Longrightarrow>
   analyzeWithAI_gemini e dir (InString t) force =
     \<lparr>returned = failure e (U ''Log content is empty or invalid'') JUndefined,
      dir_after = dir, events = []\<rparr>"
  by (simp add: analyzeWithAI_gemini_def)

lemma run_too_large:
  "trim t \<noteq> [] \<Longrightarrow> MAX_LOG_SIZE < byteLength t \<Longrightarrow>
   analyzeWithAI_gemini e dir (InString t) force =
     \<lparr>returned = failure e (U ''Log exceeds maximum size of 5MB'') JUndefined,
      dir_after = dir, events = []\<rparr>"
  by (simp add: analyzeWithAI_gemini_def)

lemma run_events:
  "trim t \<noteq> [] \<Longrightarrow> byteLength t \<le> MAX_LOG_SIZE \<Longrightarrow>
   take 2 (events (analyzeWithAI_gemini e dir (InString t) force)) = [Redact, Hash]"
  by (simp add: analyzeWithAI_gemini_def Let_def split: ai_outcome.splits sum.splits)

lemma saveToCache_keeps: "dir h = Some y \<Longrightarrow> \<exists>z. saveToCache e dir k r h = Some z"
  by (simp add: saveToCache_def)

lemma run_keeps:
  "dir h \<noteq> None \<Longrightarrow> dir_after (analyzeWithAI_gemini e dir v force) h \<noteq> None"
  by (auto simp: analyzeWithAI_gemini_def Let_def
      split: js_input.splits ai_outcome.splits sum.splits intro: saveToCache_keeps)

lemma run_expired:
  assumes "trim t \<noteq> []" and "byteLength t \<le> MAX_LOG_SIZE"
    and "getCachedResult e dir (sha256 e (redactSensitiveInfo t)) = JNull"
  shows "Generate \<in> set (events (analyzeWithAI_gemini e dir (InString t) False))"
  using assms
  by (simp add: analyzeWithAI_gemini_def Let_def generateContentHash_def
      split: ai_outcome.splits sum.splits)

section \<open>C8: expiry of cache entries\<close>

lemma getCachedResult_expired:
  "dir h = Some f \<Longrightarrow> CACHE_TTL < now_stat e - mtimeMs f \<Longrightarrow> getCachedResult e dir h = JNull"
  by (simp add: getCachedResult_def)

text \<open>
  C8. The time to live is 24 hours, and the cache never serves an expired entry: a
  lookup more than \<open>CACHE_TTL\<close> after the modification time of the file gives \<open>null\<close>,
  in particular a lookup made more than \<open>CACHE_TTL\<close> after \<open>saveToCache\<close> wrote the
  entry, while the file is still there. A run that finds an expired entry for its hash
  goes on to ask the model, and no run removes an entry from the cache directory.
\<close>

theorem expired_entry_is_absent:
  "CACHE_TTL = 24 * 60 * 60 * 1000 \<and>
   (dir h = Some f \<and> CACHE_TTL < now_stat e - mtimeMs f \<longrightarrow> getCachedResult e dir h = JNull) \<and>
   (\<not> write_throws w \<and> CACHE_TTL < now_stat e - now_mtime w \<longrightarrow>
      getCachedResult e (saveToCache w dir h r) h = JNull \<and> saveToCache w dir h r h \<noteq> None) \<and>
   (trim t \<noteq> [] \<and> byteLength t \<le> MAX_LOG_SIZE \<and>
    dir (sha256 e (redactSensitiveInfo t)) = Some f \<and> CACHE_TTL < now_stat e - mtimeMs f \<longrightarrow>
      Generate \<in> set (events (analyzeWithAI_gemini e dir (InString t) False))) \<and>
   (dir h \<noteq> None \<longrightarrow> dir_after (analyzeWithAI_gemini e dir v force) h \<noteq> None)"
proof (intro conjI impI)
  show "CACHE_TTL = 24 * 60 * 60 * 1000"
    by (simp add: CACHE_TTL_def)
next
  assume "dir h = Some f \<and> CACHE_TTL < now_stat e - mtimeMs f"
  then show "getCachedResult e dir h = JNull"
    by (simp add: getCachedResult_expired)
next
  assume a: "\<not> write_throws w \<and> CACHE_TTL < now_stat e - now_mtime w"
  then show "getCachedResult e (saveToCache w dir h r) h = JNull"
    by (simp add: getCachedResult_def saveToCache_def)
  from a show "saveToCache w dir h r h \<noteq> None"
    by (simp add: saveToCache_def)
next
  assume a: "trim t \<noteq> [] \<and> byteLength t \<le> MAX_LOG_SIZE \<and>
    dir (sha256 e (redactSensitiveInfo t)) = Some f \<and> CACHE_TTL < now_stat e - mtimeMs f"
  then have "getCachedResult e dir (sha256 e (redactSensitiveInfo t)) = JNull"
    by (simp add: getCachedResult_expired)
  with a show "Generate \<in> set (events (analyzeWithAI_gemini e dir (InString t) False))"
    by (simp add: run_expired)
next
  assume "dir h \<noteq> None"
  then show "dir_after (analyzeWithAI_gemini e dir v force) h \<noteq> None"
    by (rule run_keeps)
qed

text \<open>The witness: an entry written at time 0 and read one millisecond after the 24 hours.\<close>

theorem expired_entry_is_absent_witness:
  "\<not> write_throws env0 \<and> CACHE_TTL < now_stat (env0\<lparr>now_stat := 86400001\<rparr>) - now_mtime env0 \<and>
   getCachedResult (env0\<lparr>now_stat := 86400001\<rparr>)
     (saveToCache env0 Map.empty (U ''abc'') (JObj [(U ''success'', JBool True)])) (U ''abc'') = JNull \<and>
   saveToCache env0 Map.empty (U ''abc'') (JObj [(U ''success'', JBool True)]) (U ''abc'') \<noteq> None"
proof -
  have h: "\<not> write_throws env0 \<and> CACHE_TTL < now_stat (env0\<lparr>now_stat := 86400001\<rparr>) - now_mtime env0"
    by (simp add: env0_def CACHE_TTL_def)
  then show ?thesis
    using expired_entry_is_absent [of Map.empty "U ''abc''" "\<lparr>mtimeMs = 0, contents = None\<rparr>" "env0\<lparr>now_stat := 86400001\<rparr>" env0
        "JObj [(U ''success'', JBool True)]" "[]" InNull False]
    by blast
qed

section \<open>C7: validation of the input\<close>

lemma byteLength_replicate: "c < 128 \<Longrightarrow> byteLength (replicate n c) = n"
  by (induction n) auto

lemma trim_replicate: "\<not> is_space c \<Longrightarrow> 0 < n \<Longrightarrow> trim (replicate n c) \<noteq> []"
  by (cases n) (simp_all add: trim_def flip: replicate_Suc)

lemma route_empty_file:
  assumes "filePath = (if path f \<noteq> [] then path f else join_uploadDir (filename f))"
    and "filePath \<noteq> []" and "readFile filePath = Inr logText" and "trim logText = []"
  shows "analyze_route join_uploadDir readFile analyze dev_stack (Some f) =
     \<lparr>status = 400,
      body = JObj [(U ''success'', JBool False),
                   (U ''error'', JStr (U ''The uploaded file is empty''))]\<rparr>"
  using assms by (simp add: analyze_route_def Let_def)

text \<open>
  C7. The maximum size is 5 MB. A text that is empty after trimming is rejected with the
  error \<open>Log content is empty or invalid\<close>, and a text of one byte more than the maximum
  with \<open>Log exceeds maximum size of 5MB\<close>; in both cases the run makes no call (no
  redaction, no hash, no cache access, no request to the model) and leaves the cache
  directory as it was. A text of exactly the maximum size passes the check: the run goes
  on to redact and hash it. The route answers an upload that is empty after trimming with
  status 400, whatever the classifier is.
\<close>

theorem validation_before_work:
  "MAX_LOG_SIZE = 5 * 1024 * 1024 \<and>
   (trim t = [] \<longrightarrow>
      analyzeWithAI_gemini e dir (InString t) force =
        \<lparr>returned = failure e (U ''Log content is empty or invalid'') JUndefined,
         dir_after = dir, events = []\<rparr>) \<and>
   (trim t \<noteq> [] \<and> byteLength t = MAX_LOG_SIZE \<longrightarrow>
      take 2 (events (analyzeWithAI_gemini e dir (InString t) force)) = [Redact, Hash]) \<and>
   (trim t \<noteq> [] \<and> byteLength t = MAX_LOG_SIZE + 1 \<longrightarrow>
      analyzeWithAI_gemini e dir (InString t) force =
        \<lparr>returned = failure e (U ''Log exceeds maximum size of 5MB'') JUndefined,
         dir_after = dir, events = []\<rparr>) \<and>
   (filePath = (if path f \<noteq> [] then path f else join_uploadDir (filename f)) \<and>
    filePath \<noteq> [] \<and> readFile filePath = Inr t \<and> trim t = [] \<longrightarrow>
      analyze_route join_uploadDir readFile analyze dev_stack (Some f) =
        \<lparr>status = 400,
         body = JObj [(U ''success'', JBool False),
                      (U ''error'', JStr (U ''The uploaded file is empty''))]\<rparr>)"
proof (intro conjI impI)
  show "MAX_LOG_SIZE = 5 * 1024 * 1024"
    by (simp add: MAX_LOG_SIZE_def)
next
  assume "trim t = []"
  then show "analyzeWithAI_gemini e dir (InString t) force =
        \<lparr>returned = failure e (U ''Log content is empty or invalid'') JUndefined,
         dir_after = dir, events = []\<rparr>"
    by (rule run_empty)
next
  assume "trim t \<noteq> [] \<and> byteLength t = MAX_LOG_SIZE"
  then show "take 2 (events (analyzeWithAI_gemini e dir (InString t) force)) = [Redact, Hash]"
    by (simp add: run_events)
next
  assume "trim t \<noteq> [] \<and> byteLength t = MAX_LOG_SIZE + 1"
  then show "analyzeWithAI_gemini e dir (InString t) force =
        \<lparr>returned = failure e (U ''Log exceeds maximum size of 5MB'') JUndefined,
         dir_after = dir, events = []\<rparr>"
    by (simp add: run_too_large)
next
  assume "filePath = (if path f \<noteq> [] then path f else join_uploadDir (filename f)) \<and>
    filePath \<noteq> [] \<and> readFile filePath = Inr t \<and> trim t = []"
  then show "analyze_route join_uploadDir readFile analyze dev_stack (Some f) =
        \<lparr>status = 400,
         body = JObj [(U ''success'', JBool False),
                      (U ''error'', JStr (U ''The uploaded file is empty''))]\<rparr>"
    by (elim conjE) (rule route_empty_file)
qed


text \<open>
  The witnesses: a single space; 5242880 and 5242881 times the letter \<open>a\<close>, which takes
  one byte.
\<close>

theorem validation_before_work_witness:
  "analyzeWithAI_gemini env0 Map.empty (InString (U '' '')) False =
     \<lparr>returned = failure env0 (U ''Log content is empty or invalid'') JUndefined,
      dir_after = Map.empty, events = []\<rparr> \<and>
   byteLength (replicate 5242880 97) = MAX_LOG_SIZE \<and>
   take 2 (events (analyzeWithAI_gemini env0 Map.empty (InString (replicate 5242880 97)) False))
     = [Redact, Hash] \<and>
   byteLength (replicate 5242881 97) = MAX_LOG_SIZE + 1 \<and>
   analyzeWithAI_gemini env0 Map.empty (InString (replicate 5242881 97)) False =
     \<lparr>returned = failure env0 (U ''Log exceeds maximum size of 5MB'') JUndefined,
      dir_after = Map.empty, events = []\<rparr>"
proof -
  have e: "trim (U '' '') = []"
    by (simp add: trim_def U_def is_space_def)
  have a: "\<not> is_space 97" "(97::nat) < 128"
    by (simp_all add: is_space_def)
  have p: "0 < (5242880::nat)" "0 < (5242881::nat)"
    by simp_all
  have m1: "MAX_LOG_SIZE = 5242880"
    by (simp add: MAX_LOG_SIZE_def)
  have m2: "MAX_LOG_SIZE + 1 = 5242881"
    by (simp add: MAX_LOG_SIZE_def)
  have n1: "trim (replicate 5242880 97) \<noteq> []"
    by (rule trim_replicate [OF a(1) p(1)])
  have n2: "trim (replicate 5242881 97) \<noteq> []"
    by (rule trim_replicate [OF a(1) p(2)])
  have b1: "byteLength (replicate 5242880 97) = MAX_LOG_SIZE"
    by (rule trans [OF byteLength_replicate [OF a(2)] m1 [symmetric]])
  have b2: "byteLength (replicate 5242881 97) = MAX_LOG_SIZE + 1"
    by (rule trans [OF byteLength_replicate [OF a(2)] m2 [symmetric]])
  note empty = validation_before_work [THEN conjunct2, THEN conjunct1, rule_format]
  note exact = validation_before_work
    [THEN conjunct2, THEN conjunct2, THEN conjunct1, rule_format]
  note over = validation_before_work
    [THEN conjunct2, THEN conjunct2, THEN conjunct2, THEN conjunct1, rule_format]
  show ?thesis
    by (intro conjI, rule empty [OF e], rule b1, rule exact [OF conjI [OF n1 b1]], rule b2,
        rule over [OF conjI [OF n2 b2]])
qed

section \<open>C2: the fallback of the route\<close>

lemma truthy_populated: "truthy v \<Longrightarrow> populated v"
  by (cases v) (auto simp: populated_def)

lemma complete_fallback_analysis: "complete (fallback_analysis errorInfo)"
  by (simp add: complete_def fallback_analysis_def U_eq_iff U_Nil_iff populated_def in_range_def
      strs_def num_def truthy_populated [unfolded populated_def])

lemma route_fallback:
  assumes "filePath = (if path f \<noteq> [] then path f else join_uploadDir (filename f))"
    and "filePath \<noteq> []" and "readFile filePath = Inr logText" and "trim logText \<noteq> []"
    and "analyze logText = Inr aiResult"
    and "\<not> truthy aiResult \<or> get aiResult (U ''success'') = JBool False"
  shows "analyze_route join_uploadDir readFile analyze dev_stack (Some f) =
     \<lparr>status = 200,
      body = JObj
        [(U ''success'', JBool True),
         (U ''analysis'', fallback_analysis (get aiResult (U ''error''))),
         (U ''metadata'',
            if truthy (get aiResult (U ''metadata'')) then get aiResult (U ''metadata'') else JObj []),
         (U ''filename'', JStr (originalname f)),
         (U ''fallback'', JBool True)]\<rparr>"
  using assms by (auto simp: analyze_route_def Let_def)

text \<open>
  C2. For every upload whose text is not empty after trimming: if the classifier returns
  nothing (a falsy value) or a result with \<open>success: false\<close>, the route answers with
  status 200, \<open>success: true\<close>, \<open>fallback: true\<close>, no \<open>error\<close> and the fallback record,
  which is complete: every one of its seven fields is populated and its confidence is 50.
\<close>

theorem fallback_when_classifier_fails:
  assumes "filePath = (if path f \<noteq> [] then path f else join_uploadDir (filename f))"
    and "filePath \<noteq> []" and "readFile filePath = Inr logText" and "trim logText \<noteq> []"
    and "analyze logText = Inr aiResult"
    and "\<not> truthy aiResult \<or> get aiResult (U ''success'') = JBool False"
  shows "status (analyze_route join_uploadDir readFile analyze dev_stack (Some f)) = 200 \<and>
    get (body (analyze_route join_uploadDir readFile analyze dev_stack (Some f))) (U ''success'')
      = JBool True \<and>
    get (body (analyze_route join_uploadDir readFile analyze dev_stack (Some f))) (U ''fallback'')
      = JBool True \<and>
    get (body (analyze_route join_uploadDir readFile analyze dev_stack (Some f))) (U ''error'')
      = JUndefined \<and>
    get (body (analyze_route join_uploadDir readFile analyze dev_stack (Some f))) (U ''analysis'')
      = fallback_analysis (get aiResult (U ''error'')) \<and>
    complete (get (body (analyze_route join_uploadDir readFile analyze dev_stack (Some f)))
      (U ''analysis''))"
proof -
  have "analyze_route join_uploadDir readFile analyze dev_stack (Some f) =
     \<lparr>status = 200,
      body = JObj
        [(U ''success'', JBool True),
         (U ''analysis'', fallback_analysis (get aiResult (U ''error''))),
         (U ''metadata'',
            if truthy (get aiResult (U ''metadata'')) then get aiResult (U ''metadata'') else JObj []),
         (U ''filename'', JStr (originalname f)),
         (U ''fallback'', JBool True)]\<rparr>"
    using assms by (rule route_fallback)
  then show ?thesis
    by (simp add: U_eq_iff complete_fallback_analysis)
qed

text \<open>
  The witness: an upload with one line of text, and a classifier that reports a failure
  as the AI service does.
\<close>

theorem fallback_when_classifier_fails_witness:
  "trim (U ''disk full'') \<noteq> [] \<and>
   get (JObj [(U ''success'', JBool False),
              (U ''error'', JObj [(U ''message'', JStr (U ''No valid response from AI service''))])])
     (U ''success'') = JBool False \<and>
   status (analyze_route (\<lambda>name. U ''uploads/'' @ name) (\<lambda>file. Inr (U ''disk full''))
     (\<lambda>logText. Inr (JObj [(U ''success'', JBool False),
        (U ''error'', JObj [(U ''message'', JStr (U ''No valid response from AI service''))])]))
     JUndefined
     (Some \<lparr>originalname = U ''app.log'', path = U ''uploads/file-1.log'',
            filename = U ''file-1.log''\<rparr>)) = 200 \<and>
   get (body (analyze_route (\<lambda>name. U ''uploads/'' @ name) (\<lambda>file. Inr (U ''disk full''))
     (\<lambda>logText. Inr (JObj [(U ''success'', JBool False),
        (U ''error'', JObj [(U ''message'', JStr (U ''No valid response from AI service''))])]))
     JUndefined
     (Some \<lparr>originalname = U ''app.log'', path = U ''uploads/file-1.log'',
            filename = U ''file-1.log''\<rparr>))) (U ''fallback'') = JBool True"
proof -
  have t: "trim (U ''disk full'') \<noteq> []"
    by (simp add: trim_def U_def is_space_def)
  have g: "get (JObj [(U ''success'', JBool False),
              (U ''error'', JObj [(U ''message'', JStr (U ''No valid response from AI service''))])])
     (U ''success'') = JBool False"
    by simp
  have p: "U ''uploads/file-1.log'' \<noteq> []"
    by (simp add: U_Nil_iff)
  show ?thesis
    using fallback_when_classifier_fails [of "U ''uploads/file-1.log''"
        "\<lparr>originalname = U ''app.log'', path = U ''uploads/file-1.log'',
            filename = U ''file-1.log''\<rparr>"
        "\<lambda>name. U ''uploads/'' @ name" "\<lambda>file. Inr (U ''disk full'')" "U ''disk full''"
        "\<lambda>logText. Inr (JObj [(U ''success'', JBool False),
          (U ''error'', JObj [(U ''message'', JStr (U ''No valid response from AI service''))])])"
        "JObj [(U ''success'', JBool False),
          (U ''error'', JObj [(U ''message'', JStr (U ''No valid response from AI service''))])]"
        JUndefined] t g p
    by simp
qed

section \<open>C3: redacting twice\<close>

lemmas redactSensitive_eval = redactSensitive_def ip_pattern_def path_pattern_def
  key_pattern_def email_pattern_def time_pattern_def re_eval

lemmas redactSensitiveInfo_eval = redactSensitiveInfo_def REDACT_PATTERNS_def IP_def EMAIL_def
  API_KEY_def URL_def FILE_PATH_def TIMESTAMP_def CREDIT_CARD_def SSN_def re_eval

lemma redactSensitive_once:
  "redactSensitive (U ''bob@example.com10.0.0.5'') = U ''[REDACTED_EMAIL]10.0.0.5''"
  by (simp add: redactSensitive_eval)

lemma redactSensitive_twice:
  "redactSensitive (U ''[REDACTED_EMAIL]10.0.0.5'') = U ''[REDACTED_EMAIL][REDACTED_IP]''"
  by (simp add: redactSensitive_eval)

lemma redactSensitiveInfo_once:
  "redactSensitiveInfo (U ''bob@example.com10.0.0.5'') = U ''[REDACTED][REDACTED]''"
  by (simp add: redactSensitiveInfo_eval)

lemma redactSensitiveInfo_twice:
  "redactSensitiveInfo (U ''[REDACTED][REDACTED]'') = U ''[REDACTED][REDACTED]''"
  by (simp add: redactSensitiveInfo_eval)

text \<open>
  C3, on the input \<^verbatim>\<open>bob@example.com10.0.0.5\<close>. \<open>redactSensitive\<close> leaves the address
  \<open>10.0.0.5\<close> in its first pass, since no word boundary stands between \<open>m\<close> and \<open>1\<close>,
  and redacts the e-mail address before it; the bracket that now stands before the
  address is a word boundary, so a second pass redacts the address too. The second
  pass changes the text. \<open>redactSensitiveInfo\<close> reaches a fixed point on this input in
  one pass.
\<close>

theorem redactSensitive_not_idempotent:
  "redactSensitive (U ''bob@example.com10.0.0.5'') = U ''[REDACTED_EMAIL]10.0.0.5'' \<and>
   redactSensitive (redactSensitive (U ''bob@example.com10.0.0.5''))
     = U ''[REDACTED_EMAIL][REDACTED_IP]'' \<and>
   redactSensitive (redactSensitive (U ''bob@example.com10.0.0.5''))
     \<noteq> redactSensitive (U ''bob@example.com10.0.0.5'') \<and>
   redactSensitiveInfo (redactSensitiveInfo (U ''bob@example.com10.0.0.5''))
     = redactSensitiveInfo (U ''bob@example.com10.0.0.5'')"
  unfolding redactSensitive_once redactSensitive_twice redactSensitiveInfo_once
    redactSensitiveInfo_twice
  by (simp add: U_eq_iff)

end
